theory Spec2Isabelle
  imports Main "HOL-Library.AList" "HOL-Library.Multiset"
begin

section \<open>JavaScript values\<close>

text \<open>
  The two source files are JavaScript: \<^verbatim>\<open>src/api/controlledTerminology.js\<close> (the Resource
  Client) and \<^verbatim>\<open>src/stores/studies-general.js\<close> (the Session State Store). Values are
  dynamically typed, so the model has one type of values. Numbers are restricted to
  integers and strings to code units below 256; an object is an association list in
  property-enumeration order.
\<close>

datatype jsval =
    JUndefined
  | JNull
  | JBool bool
  | JNum int
  | JStr string
  | JArr "jsval list"
  | JObj "(string \<times> jsval) list"

text \<open>
  What a JavaScript computation can end with instead of a value: a \<^verbatim>\<open>TypeError\<close> (reading a
  property of \<^verbatim>\<open>undefined\<close> or \<^verbatim>\<open>null\<close>, calling what is not a function), a
  \<^verbatim>\<open>SyntaxError\<close> of \<^verbatim>\<open>JSON.parse\<close>, the rejection reason of a promise of the HTTP
  layer, and \<open>Unmodelled\<close> for behaviour this model does not determine.
\<close>

datatype error = TypeError | SyntaxError | Rejection jsval | Unmodelled

text \<open>\<^verbatim>\<open>v.k\<close> for the property names the sources use (none is a built-in of arrays,
  strings, numbers or booleans, where the read gives \<^verbatim>\<open>undefined\<close>).\<close>

definition own_prop :: "(string \<times> jsval) list \<Rightarrow> string \<Rightarrow> jsval" where
  "own_prop kvs k = (case map_of kvs k of None \<Rightarrow> JUndefined | Some v \<Rightarrow> v)"

fun getprop :: "jsval \<Rightarrow> string \<Rightarrow> error + jsval" where
  "getprop JUndefined k = Inl TypeError"
| "getprop JNull k = Inl TypeError"
| "getprop (JObj kvs) k = Inr (own_prop kvs k)"
| "getprop v k = Inr JUndefined"

text \<open>Sequencing of computations that may throw.\<close>

fun bind_err :: "error + 'a \<Rightarrow> ('a \<Rightarrow> error + 'b) \<Rightarrow> error + 'b" where
  "bind_err (Inl e) f = Inl e"
| "bind_err (Inr x) f = f x"

text \<open>Decimal digits of a natural number, as \<^verbatim>\<open>String(n)\<close> writes them.\<close>

definition digit_char :: "nat \<Rightarrow> char" where
  "digit_char n = char_of (48 + n)"

function show_nat :: "nat \<Rightarrow> string" where
  "show_nat n = (if n < 10 then [digit_char n] else show_nat (n div 10) @ [digit_char (n mod 10)])"
  by pat_completeness auto
termination
  by (relation "measure id") auto

declare show_nat.simps [simp del]

text \<open>The own enumerable properties that \<^verbatim>\<open>{...v}\<close> copies: those of an object, the
  indexed elements of an array or of a string, none of any other value.\<close>

fun spread :: "jsval \<Rightarrow> (string \<times> jsval) list" where
  "spread (JObj kvs) = kvs"
| "spread (JArr xs) = zip (map show_nat [0..<length xs]) xs"
| "spread (JStr s) = zip (map show_nat [0..<length s]) (map (\<lambda>c. JStr [c]) s)"
| "spread v = []"

section \<open>The Resource Client (controlledTerminology.js)\<close>

text \<open>
  Every operation calls one method of the imported \<^verbatim>\<open>repository\<close> (the HTTP client, which is
  not part of these files) and returns what it returns. The HTTP client is a parameter of
  each operation: a function from the request to a result of any type. A request is the
  method called, the URL and the arguments that follow the URL.
\<close>

datatype http_method = GET | POST | PATCH | DELETE

datatype request = Request http_method string "jsval list"

fun req_args :: "request \<Rightarrow> jsval list" where
  "req_args (Request m url args) = args"

definition resource :: string where
  "resource = ''ct''"

text \<open>The object literal \<^verbatim>\<open>{ params }\<close>.\<close>

definition config :: "jsval \<Rightarrow> jsval" where
  "config params = JObj [(''params'', params)]"

definition getCatalogues :: "(request \<Rightarrow> 'r) \<Rightarrow> 'r" where
  "getCatalogues repository = repository (Request GET (resource @ ''/catalogues'') [])"

definition getPackages :: "(request \<Rightarrow> 'r) \<Rightarrow> jsval \<Rightarrow> 'r" where
  "getPackages repository params =
     repository (Request GET (resource @ ''/packages'') [config params])"

definition getSponsorPackages :: "(request \<Rightarrow> 'r) \<Rightarrow> 'r" where
  "getSponsorPackages repository =
     (let params = JObj [(''catalogue'', JStr ''SDTM CT''), (''sponsor_only'', JBool True)]
      in repository (Request GET (resource @ ''/packages'') [config params]))"

definition getPackagesDates :: "(request \<Rightarrow> 'r) \<Rightarrow> jsval \<Rightarrow> 'r" where
  "getPackagesDates repository catalogueName =
     (let params = JObj [(''catalogue_name'', catalogueName)]
      in repository (Request GET (resource @ ''/packages/dates'') [config params]))"

definition getPackagesChanges :: "(request \<Rightarrow> 'r) \<Rightarrow> jsval \<Rightarrow> jsval \<Rightarrow> jsval \<Rightarrow> 'r" where
  "getPackagesChanges repository catalogueName fromDate toDate =
     (let params = JObj [(''catalogue_name'', catalogueName),
                         (''old_package_date'', fromDate),
                         (''new_package_date'', toDate)]
      in repository (Request GET (resource @ ''/packages/changes'') [config params]))"

definition getPackagesCodelistChanges ::
  "(request \<Rightarrow> 'r) \<Rightarrow> string \<Rightarrow> jsval \<Rightarrow> jsval \<Rightarrow> jsval \<Rightarrow> 'r" where
  "getPackagesCodelistChanges repository codelistUid catalogueName fromDate toDate =
     (let params = JObj [(''catalogue_name'', catalogueName),
                         (''old_package_date'', fromDate),
                         (''new_package_date'', toDate)]
      in repository
           (Request GET (resource @ ''/packages/'' @ codelistUid @ ''/changes'') [config params]))"

definition createSponsorPackage :: "(request \<Rightarrow> 'r) \<Rightarrow> jsval \<Rightarrow> 'r" where
  "createSponsorPackage repository data =
     repository (Request POST (resource @ ''/packages/sponsor'') [data])"

definition getCodelists :: "(request \<Rightarrow> 'r) \<Rightarrow> jsval \<Rightarrow> 'r" where
  "getCodelists repository options =
     (let params = spread options;
          params = (if map_of params ''page_size'' = Some (JNum (- 1))
                    then AList.update ''page_size'' (JNum 1000) params
                    else params)
      in repository (Request GET (resource @ ''/codelists'') [config (JObj params)]))"

definition getCodelistNames :: "(request \<Rightarrow> 'r) \<Rightarrow> string \<Rightarrow> 'r" where
  "getCodelistNames repository codelistUid =
     repository (Request GET (resource @ ''/codelists/'' @ codelistUid @ ''/names'') [])"

definition getCodelistNamesVersions :: "(request \<Rightarrow> 'r) \<Rightarrow> string \<Rightarrow> 'r" where
  "getCodelistNamesVersions repository codelistUid =
     repository (Request GET (resource @ ''/codelists/'' @ codelistUid @ ''/names/versions'') [])"

definition updateCodelistNames :: "(request \<Rightarrow> 'r) \<Rightarrow> string \<Rightarrow> jsval \<Rightarrow> 'r" where
  "updateCodelistNames repository codelistUid data =
     repository (Request PATCH (resource @ ''/codelists/'' @ codelistUid @ ''/names'') [data])"

definition newCodelistNamesVersion :: "(request \<Rightarrow> 'r) \<Rightarrow> string \<Rightarrow> 'r" where
  "newCodelistNamesVersion repository codelistUid =
     repository (Request POST (resource @ ''/codelists/'' @ codelistUid @ ''/names/versions'') [])"

definition approveCodelistNames :: "(request \<Rightarrow> 'r) \<Rightarrow> string \<Rightarrow> 'r" where
  "approveCodelistNames repository codelistUid =
     repository (Request POST (resource @ ''/codelists/'' @ codelistUid @ ''/names/approvals'') [])"

definition getCodelistAttributes :: "(request \<Rightarrow> 'r) \<Rightarrow> string \<Rightarrow> 'r" where
  "getCodelistAttributes repository codelistUid =
     repository (Request GET (resource @ ''/codelists/'' @ codelistUid @ ''/attributes'') [])"

definition getCodelistAttributesVersions :: "(request \<Rightarrow> 'r) \<Rightarrow> string \<Rightarrow> 'r" where
  "getCodelistAttributesVersions repository codelistUid =
     repository
       (Request GET (resource @ ''/codelists/'' @ codelistUid @ ''/attributes/versions'') [])"

definition newCodelistAttributesVersion :: "(request \<Rightarrow> 'r) \<Rightarrow> string \<Rightarrow> 'r" where
  "newCodelistAttributesVersion repository codelistUid =
     repository
       (Request POST (resource @ ''/codelists/'' @ codelistUid @ ''/attributes/versions'') [])"

definition approveCodelistAttributes :: "(request \<Rightarrow> 'r) \<Rightarrow> string \<Rightarrow> 'r" where
  "approveCodelistAttributes repository codelistUid =
     repository
       (Request POST (resource @ ''/codelists/'' @ codelistUid @ ''/attributes/approvals'') [])"

definition getCodelistTerms :: "(request \<Rightarrow> 'r) \<Rightarrow> jsval \<Rightarrow> 'r" where
  "getCodelistTerms repository params =
     repository (Request GET (resource @ ''/terms'') [config params])"

definition getCodelistTermsNames :: "(request \<Rightarrow> 'r) \<Rightarrow> jsval \<Rightarrow> 'r" where
  "getCodelistTermsNames repository params =
     repository (Request GET (resource @ ''/terms/names'') [config params])"

definition getCodelistTermNames :: "(request \<Rightarrow> 'r) \<Rightarrow> string \<Rightarrow> 'r" where
  "getCodelistTermNames repository termUid =
     repository (Request GET (resource @ ''/terms/'' @ termUid @ ''/names'') [])"

definition getCodelistTermNamesVersions :: "(request \<Rightarrow> 'r) \<Rightarrow> string \<Rightarrow> 'r" where
  "getCodelistTermNamesVersions repository termUid =
     repository (Request GET (resource @ ''/terms/'' @ termUid @ ''/names/versions'') [])"

definition newCodelistTermNamesVersion :: "(request \<Rightarrow> 'r) \<Rightarrow> string \<Rightarrow> 'r" where
  "newCodelistTermNamesVersion repository termUid =
     repository (Request POST (resource @ ''/terms/'' @ termUid @ ''/names/versions'') [])"

definition approveCodelistTermNames :: "(request \<Rightarrow> 'r) \<Rightarrow> string \<Rightarrow> 'r" where
  "approveCodelistTermNames repository termUid =
     repository (Request POST (resource @ ''/terms/'' @ termUid @ ''/names/approvals'') [])"

definition inactivateCodelistTermNames :: "(request \<Rightarrow> 'r) \<Rightarrow> string \<Rightarrow> 'r" where
  "inactivateCodelistTermNames repository termUid =
     repository (Request DELETE (resource @ ''/terms/'' @ termUid @ ''/names/activations'') [])"

definition reactivateCodelistTermNames :: "(request \<Rightarrow> 'r) \<Rightarrow> string \<Rightarrow> 'r" where
  "reactivateCodelistTermNames repository termUid =
     repository (Request POST (resource @ ''/terms/'' @ termUid @ ''/names/activations'') [])"

definition deleteCodelistTermNames :: "(request \<Rightarrow> 'r) \<Rightarrow> string \<Rightarrow> 'r" where
  "deleteCodelistTermNames repository termUid =
     repository (Request DELETE (resource @ ''/terms/'' @ termUid @ ''/names'') [])"

definition getCodelistTermsAttributes :: "(request \<Rightarrow> 'r) \<Rightarrow> jsval \<Rightarrow> jsval \<Rightarrow> 'r" where
  "getCodelistTermsAttributes repository codelistUid options =
     (let params = AList.update ''codelist_uid'' codelistUid (spread options)
      in repository (Request GET (resource @ ''/terms/attributes'') [config (JObj params)]))"

definition getCodelistTermAttributes :: "(request \<Rightarrow> 'r) \<Rightarrow> string \<Rightarrow> 'r" where
  "getCodelistTermAttributes repository termUid =
     repository (Request GET (resource @ ''/terms/'' @ termUid @ ''/attributes'') [])"

definition getCodelistTermAttributesVersions :: "(request \<Rightarrow> 'r) \<Rightarrow> string \<Rightarrow> 'r" where
  "getCodelistTermAttributesVersions repository termUid =
     repository (Request GET (resource @ ''/terms/'' @ termUid @ ''/attributes/versions'') [])"

definition newCodelistTermAttributesVersion :: "(request \<Rightarrow> 'r) \<Rightarrow> string \<Rightarrow> 'r" where
  "newCodelistTermAttributesVersion repository termUid =
     repository (Request POST (resource @ ''/terms/'' @ termUid @ ''/attributes/versions'') [])"

definition approveCodelistTermAttributes :: "(request \<Rightarrow> 'r) \<Rightarrow> string \<Rightarrow> 'r" where
  "approveCodelistTermAttributes repository termUid =
     repository (Request POST (resource @ ''/terms/'' @ termUid @ ''/attributes/approvals'') [])"

definition inactivateCodelistTermAttributes :: "(request \<Rightarrow> 'r) \<Rightarrow> string \<Rightarrow> 'r" where
  "inactivateCodelistTermAttributes repository termUid =
     repository
       (Request DELETE (resource @ ''/terms/'' @ termUid @ ''/attributes/activations'') [])"

definition reactivateCodelistTermAttributes :: "(request \<Rightarrow> 'r) \<Rightarrow> string \<Rightarrow> 'r" where
  "reactivateCodelistTermAttributes repository termUid =
     repository
       (Request POST (resource @ ''/terms/'' @ termUid @ ''/attributes/activations'') [])"

definition deleteCodelistTermAttributes :: "(request \<Rightarrow> 'r) \<Rightarrow> string \<Rightarrow> 'r" where
  "deleteCodelistTermAttributes repository termUid =
     repository (Request DELETE (resource @ ''/terms/'' @ termUid @ ''/attributes'') [])"

definition createCodelistTerm :: "(request \<Rightarrow> 'r) \<Rightarrow> jsval \<Rightarrow> 'r" where
  "createCodelistTerm repository data =
     repository (Request POST (resource @ ''/terms'') [data])"

definition addTermToCodelist :: "(request \<Rightarrow> 'r) \<Rightarrow> string \<Rightarrow> jsval \<Rightarrow> 'r" where
  "addTermToCodelist repository codelistUid termUid =
     (let data = JObj [(''term_uid'', termUid), (''order'', JNum 999999)]
      in repository (Request POST (resource @ ''/codelists/'' @ codelistUid @ ''/terms'') [data]))"

definition removeTermFromCodelist :: "(request \<Rightarrow> 'r) \<Rightarrow> string \<Rightarrow> string \<Rightarrow> 'r" where
  "removeTermFromCodelist repository codelistUid termUid =
     repository
       (Request DELETE (resource @ ''/codelists/'' @ codelistUid @ ''/terms/'' @ termUid) [])"

definition updateCodelistTermOrder :: "(request \<Rightarrow> 'r) \<Rightarrow> string \<Rightarrow> jsval \<Rightarrow> 'r" where
  "updateCodelistTermOrder repository termUid data =
     repository (Request PATCH (resource @ ''/terms/'' @ termUid @ ''/order'') [data])"

definition updateCodelistTermNames :: "(request \<Rightarrow> 'r) \<Rightarrow> string \<Rightarrow> jsval \<Rightarrow> 'r" where
  "updateCodelistTermNames repository termUid data =
     repository (Request PATCH (resource @ ''/terms/'' @ termUid @ ''/names'') [data])"

definition updateCodelistTermAttributes :: "(request \<Rightarrow> 'r) \<Rightarrow> string \<Rightarrow> jsval \<Rightarrow> 'r" where
  "updateCodelistTermAttributes repository termUid data =
     repository (Request PATCH (resource @ ''/terms/'' @ termUid @ ''/attributes'') [data])"

definition updateCodelistAttributes :: "(request \<Rightarrow> 'r) \<Rightarrow> string \<Rightarrow> jsval \<Rightarrow> 'r" where
  "updateCodelistAttributes repository codelistUid data =
     repository
       (Request PATCH (resource @ ''/codelists/'' @ codelistUid @ ''/attributes'') [data])"

definition createCodelist :: "(request \<Rightarrow> 'r) \<Rightarrow> jsval \<Rightarrow> 'r" where
  "createCodelist repository data =
     repository (Request POST (resource @ ''/codelists'') [data])"

definition getStats :: "(request \<Rightarrow> 'r) \<Rightarrow> 'r" where
  "getStats repository = repository (Request GET (resource @ ''/stats'') [])"

text \<open>The exported object: one constructor per operation, with the arguments of the call,
  and the dispatch to the operation.\<close>

datatype ct_call =
    GetCatalogues
  | GetPackages jsval
  | GetSponsorPackages
  | GetPackagesDates jsval
  | GetPackagesChanges jsval jsval jsval
  | GetPackagesCodelistChanges string jsval jsval jsval
  | CreateSponsorPackage jsval
  | GetCodelists jsval
  | GetCodelistNames string
  | GetCodelistNamesVersions string
  | UpdateCodelistNames string jsval
  | NewCodelistNamesVersion string
  | ApproveCodelistNames string
  | GetCodelistAttributes string
  | GetCodelistAttributesVersions string
  | NewCodelistAttributesVersion string
  | ApproveCodelistAttributes string
  | GetCodelistTerms jsval
  | GetCodelistTermsNames jsval
  | GetCodelistTermNames string
  | GetCodelistTermNamesVersions string
  | NewCodelistTermNamesVersion string
  | ApproveCodelistTermNames string
  | InactivateCodelistTermNames string
  | ReactivateCodelistTermNames string
  | DeleteCodelistTermNames string
  | GetCodelistTermsAttributes jsval jsval
  | GetCodelistTermAttributes string
  | GetCodelistTermAttributesVersions string
  | NewCodelistTermAttributesVersion string
  | ApproveCodelistTermAttributes string
  | InactivateCodelistTermAttributes string
  | ReactivateCodelistTermAttributes string
  | DeleteCodelistTermAttributes string
  | CreateCodelistTerm jsval
  | AddTermToCodelist string jsval
  | RemoveTermFromCodelist string string
  | UpdateCodelistTermOrder string jsval
  | UpdateCodelistTermNames string jsval
  | UpdateCodelistTermAttributes string jsval
  | UpdateCodelistAttributes string jsval
  | CreateCodelist jsval
  | GetStats

fun invoke :: "(request \<Rightarrow> 'r) \<Rightarrow> ct_call \<Rightarrow> 'r" where
  "invoke rp GetCatalogues = getCatalogues rp"
| "invoke rp (GetPackages p) = getPackages rp p"
| "invoke rp GetSponsorPackages = getSponsorPackages rp"
| "invoke rp (GetPackagesDates n) = getPackagesDates rp n"
| "invoke rp (GetPackagesChanges n f t) = getPackagesChanges rp n f t"
| "invoke rp (GetPackagesCodelistChanges u n f t) = getPackagesCodelistChanges rp u n f t"
| "invoke rp (CreateSponsorPackage d) = createSponsorPackage rp d"
| "invoke rp (GetCodelists opts) = getCodelists rp opts"
| "invoke rp (GetCodelistNames u) = getCodelistNames rp u"
| "invoke rp (GetCodelistNamesVersions u) = getCodelistNamesVersions rp u"
| "invoke rp (UpdateCodelistNames u d) = updateCodelistNames rp u d"
| "invoke rp (NewCodelistNamesVersion u) = newCodelistNamesVersion rp u"
| "invoke rp (ApproveCodelistNames u) = approveCodelistNames rp u"
| "invoke rp (GetCodelistAttributes u) = getCodelistAttributes rp u"
| "invoke rp (GetCodelistAttributesVersions u) = getCodelistAttributesVersions rp u"
| "invoke rp (NewCodelistAttributesVersion u) = newCodelistAttributesVersion rp u"
| "invoke rp (ApproveCodelistAttributes u) = approveCodelistAttributes rp u"
| "invoke rp (GetCodelistTerms p) = getCodelistTerms rp p"
| "invoke rp (GetCodelistTermsNames p) = getCodelistTermsNames rp p"
| "invoke rp (GetCodelistTermNames u) = getCodelistTermNames rp u"
| "invoke rp (GetCodelistTermNamesVersions u) = getCodelistTermNamesVersions rp u"
| "invoke rp (NewCodelistTermNamesVersion u) = newCodelistTermNamesVersion rp u"
| "invoke rp (ApproveCodelistTermNames u) = approveCodelistTermNames rp u"
| "invoke rp (InactivateCodelistTermNames u) = inactivateCodelistTermNames rp u"
| "invoke rp (ReactivateCodelistTermNames u) = reactivateCodelistTermNames rp u"
| "invoke rp (DeleteCodelistTermNames u) = deleteCodelistTermNames rp u"
| "invoke rp (GetCodelistTermsAttributes u opts) = getCodelistTermsAttributes rp u opts"
| "invoke rp (GetCodelistTermAttributes u) = getCodelistTermAttributes rp u"
| "invoke rp (GetCodelistTermAttributesVersions u) = getCodelistTermAttributesVersions rp u"
| "invoke rp (NewCodelistTermAttributesVersion u) = newCodelistTermAttributesVersion rp u"
| "invoke rp (ApproveCodelistTermAttributes u) = approveCodelistTermAttributes rp u"
| "invoke rp (InactivateCodelistTermAttributes u) = inactivateCodelistTermAttributes rp u"
| "invoke rp (ReactivateCodelistTermAttributes u) = reactivateCodelistTermAttributes rp u"
| "invoke rp (DeleteCodelistTermAttributes u) = deleteCodelistTermAttributes rp u"
| "invoke rp (CreateCodelistTerm d) = createCodelistTerm rp d"
| "invoke rp (AddTermToCodelist u t) = addTermToCodelist rp u t"
| "invoke rp (RemoveTermFromCodelist u t) = removeTermFromCodelist rp u t"
| "invoke rp (UpdateCodelistTermOrder u d) = updateCodelistTermOrder rp u d"
| "invoke rp (UpdateCodelistTermNames u d) = updateCodelistTermNames rp u d"
| "invoke rp (UpdateCodelistTermAttributes u d) = updateCodelistTermAttributes rp u d"
| "invoke rp (UpdateCodelistAttributes u d) = updateCodelistAttributes rp u d"
| "invoke rp (CreateCodelist d) = createCodelist rp d"
| "invoke rp GetStats = getStats rp"

text \<open>The request an operation hands to the HTTP client: what the client that returns its
  argument sees.\<close>

definition request_of :: "ct_call \<Rightarrow> request" where
  "request_of c = invoke (\<lambda>r. r) c"

section \<open>JSON text\<close>

text \<open>
  \<^verbatim>\<open>JSON.stringify\<close> and \<^verbatim>\<open>JSON.parse\<close> are built into the language; the store uses them to
  persist the selected study. They are modelled on the values above: the serializer writes
  no white space, omits a property whose value is \<^verbatim>\<open>undefined\<close>, writes \<^verbatim>\<open>null\<close> for an
  \<^verbatim>\<open>undefined\<close> array element and returns \<^verbatim>\<open>undefined\<close> (here \<open>None\<close>) for
  \<^verbatim>\<open>undefined\<close> itself. A \<open>JNum i\<close> stands for a JavaScript number when \<open>i\<close> is a safe
  integer (\<open>\<bar>i\<bar> < 2 ^ 53\<close>); the parser reports a number with a fraction or an exponent,
  or beyond that range, and an escape \<^verbatim>\<open>\uXXXX\<close> of a code unit above 255, as \<open>Unmodelled\<close>.
\<close>

definition hex_char :: "nat \<Rightarrow> char" where
  "hex_char n = (if n < 10 then char_of (48 + n) else char_of (87 + n))"

definition escape_char :: "char \<Rightarrow> string" where
  "escape_char c =
     (if c = CHR 0x22 then [CHR 0x5C, CHR 0x22]
      else if c = CHR 0x5C then [CHR 0x5C, CHR 0x5C]
      else if c = CHR 0x08 then [CHR 0x5C, CHR ''b'']
      else if c = CHR 0x0C then [CHR 0x5C, CHR ''f'']
      else if c = CHR 0x0A then [CHR 0x5C, CHR ''n'']
      else if c = CHR 0x0D then [CHR 0x5C, CHR ''r'']
      else if c = CHR 0x09 then [CHR 0x5C, CHR ''t'']
      else if (of_char c :: nat) < 32
        then [CHR 0x5C, CHR ''u'', CHR ''0'', CHR ''0'',
              hex_char ((of_char c :: nat) div 16), hex_char ((of_char c :: nat) mod 16)]
      else [c])"

definition quote :: "string \<Rightarrow> string" where
  "quote s = CHR 0x22 # concat (map escape_char s) @ [CHR 0x22]"

definition show_int :: "int \<Rightarrow> string" where
  "show_int i = (if i < 0 then CHR ''-'' # show_nat (nat (- i)) else show_nat (nat i))"

fun join_comma :: "string list \<Rightarrow> string" where
  "join_comma [] = []"
| "join_comma [x] = x"
| "join_comma (x # y # ys) = x @ CHR '','' # join_comma (y # ys)"

fun JSON_stringify :: "jsval \<Rightarrow> string option"
  and stringify_elems :: "jsval list \<Rightarrow> string list"
  and stringify_members :: "(string \<times> jsval) list \<Rightarrow> string list" where
  "JSON_stringify JUndefined = None"
| "JSON_stringify JNull = Some ''null''"
| "JSON_stringify (JBool b) = Some (if b then ''true'' else ''false'')"
| "JSON_stringify (JNum i) = Some (show_int i)"
| "JSON_stringify (JStr s) = Some (quote s)"
| "JSON_stringify (JArr xs) = Some (CHR ''['' # join_comma (stringify_elems xs) @ '']'')"
| "JSON_stringify (JObj kvs) = Some (CHR ''{'' # join_comma (stringify_members kvs) @ ''}'')"
| "stringify_elems [] = []"
| "stringify_elems (x # xs) =
     (case JSON_stringify x of None \<Rightarrow> ''null'' | Some t \<Rightarrow> t) # stringify_elems xs"
| "stringify_members [] = []"
| "stringify_members ((k, v) # kvs) =
     (case JSON_stringify v of
        None \<Rightarrow> stringify_members kvs
      | Some t \<Rightarrow> (quote k @ CHR '':'' # t) # stringify_members kvs)"

definition is_ws :: "char \<Rightarrow> bool" where
  "is_ws c = (c = CHR 0x20 \<or> c = CHR 0x09 \<or> c = CHR 0x0A \<or> c = CHR 0x0D)"

definition skip_ws :: "string \<Rightarrow> string" where
  "skip_ws s = dropWhile is_ws s"

definition is_digit :: "char \<Rightarrow> bool" where
  "is_digit c = (48 \<le> (of_char c :: nat) \<and> (of_char c :: nat) \<le> 57)"

definition digit_val :: "char \<Rightarrow> nat" where
  "digit_val c = of_char c - 48"

definition digits_val :: "string \<Rightarrow> nat" where
  "digits_val ds = foldl (\<lambda>a c. 10 * a + digit_val c) 0 ds"

definition hex_val :: "char \<Rightarrow> nat option" where
  "hex_val c =
     (let n = (of_char c :: nat)
      in if 48 \<le> n \<and> n \<le> 57 then Some (n - 48)
         else if 97 \<le> n \<and> n \<le> 102 then Some (n - 87)
         else if 65 \<le> n \<and> n \<le> 70 then Some (n - 55)
         else None)"

definition hex4 :: "char \<Rightarrow> char \<Rightarrow> char \<Rightarrow> char \<Rightarrow> nat option" where
  "hex4 a b c d =
     (case (hex_val a, hex_val b, hex_val c, hex_val d) of
        (Some i, Some j, Some k, Some l) \<Rightarrow> Some (((i * 16 + j) * 16 + k) * 16 + l)
      | _ \<Rightarrow> None)"

definition unescape :: "char \<Rightarrow> char option" where
  "unescape e =
     (if e = CHR 0x22 then Some (CHR 0x22)
      else if e = CHR 0x5C then Some (CHR 0x5C)
      else if e = CHR ''/'' then Some (CHR ''/'')
      else if e = CHR ''b'' then Some (CHR 0x08)
      else if e = CHR ''f'' then Some (CHR 0x0C)
      else if e = CHR ''n'' then Some (CHR 0x0A)
      else if e = CHR ''r'' then Some (CHR 0x0D)
      else if e = CHR ''t'' then Some (CHR 0x09)
      else None)"

definition cons_char :: "char \<Rightarrow> error + string \<times> string \<Rightarrow> error + string \<times> string" where
  "cons_char c r = bind_err r (\<lambda>(s, rest). Inr (c # s, rest))"

text \<open>The characters of a string literal after its opening quote, up to the closing one.\<close>

fun parse_chars :: "string \<Rightarrow> error + string \<times> string" where
  "parse_chars [] = Inl SyntaxError"
| "parse_chars (c # cs) =
     (if c = CHR 0x22 then Inr ([], cs)
      else if c = CHR 0x5C then
        (case cs of
           [] \<Rightarrow> Inl SyntaxError
         | e # cs1 \<Rightarrow>
             if e = CHR ''u'' then
               (case cs1 of
                  h1 # h2 # h3 # h4 # cs2 \<Rightarrow>
                    (case hex4 h1 h2 h3 h4 of
                       None \<Rightarrow> Inl SyntaxError
                     | Some n \<Rightarrow>
                         if n < 256 then cons_char (char_of n) (parse_chars cs2)
                         else Inl Unmodelled)
                | _ \<Rightarrow> Inl SyntaxError)
             else
               (case unescape e of
                  None \<Rightarrow> Inl SyntaxError
                | Some c1 \<Rightarrow> cons_char c1 (parse_chars cs1)))
      else if (of_char c :: nat) < 32 then Inl SyntaxError
      else cons_char c (parse_chars cs))"

definition strip_prefix :: "string \<Rightarrow> string \<Rightarrow> string option" where
  "strip_prefix p s = (if take (length p) s = p then Some (drop (length p) s) else None)"

definition parse_number :: "string \<Rightarrow> error + jsval \<times> string" where
  "parse_number s =
     (let neg = (s \<noteq> [] \<and> hd s = CHR ''-'');
          s1 = (if neg then tl s else s);
          ds = takeWhile is_digit s1;
          rest = dropWhile is_digit s1;
          n = int (digits_val ds)
      in if ds = [] then Inl SyntaxError
         else if 1 < length ds \<and> hd ds = CHR ''0'' then Inl SyntaxError
         else if rest \<noteq> [] \<and> hd rest \<in> {CHR ''.'', CHR ''e'', CHR ''E''} then Inl Unmodelled
         else if 2 ^ 53 \<le> n then Inl Unmodelled
         else Inr (JNum (if neg then - n else n), rest))"

text \<open>An object built from its members in text order: a repeated name keeps its first
  place and takes the last value.\<close>

definition object_of :: "(string \<times> jsval) list \<Rightarrow> jsval" where
  "object_of kvs = JObj (foldl (\<lambda>acc (k, v). AList.update k v acc) [] kvs)"

text \<open>The recursive descent, with fuel for the recursion (\<open>Unmodelled\<close> if it ran out);
  \<open>JSON_parse\<close> supplies more than any text needs.\<close>

fun parse_value :: "nat \<Rightarrow> string \<Rightarrow> error + jsval \<times> string"
  and parse_elems :: "nat \<Rightarrow> string \<Rightarrow> error + jsval list \<times> string"
  and parse_members :: "nat \<Rightarrow> string \<Rightarrow> error + (string \<times> jsval) list \<times> string" where
  "parse_value 0 s = Inl Unmodelled"
| "parse_value (Suc f) s =
     (case skip_ws s of
        [] \<Rightarrow> Inl SyntaxError
      | c # cs \<Rightarrow>
          if c = CHR ''{'' then
            (if skip_ws cs \<noteq> [] \<and> hd (skip_ws cs) = CHR ''}''
             then Inr (JObj [], tl (skip_ws cs))
             else bind_err (parse_members f cs) (\<lambda>(kvs, r). Inr (object_of kvs, r)))
          else if c = CHR ''['' then
            (if skip_ws cs \<noteq> [] \<and> hd (skip_ws cs) = CHR '']''
             then Inr (JArr [], tl (skip_ws cs))
             else bind_err (parse_elems f cs) (\<lambda>(vs, r). Inr (JArr vs, r)))
          else if c = CHR 0x22 then
            bind_err (parse_chars cs) (\<lambda>(t, r). Inr (JStr t, r))
          else if c = CHR ''-'' \<or> is_digit c then parse_number (c # cs)
          else
            (case strip_prefix ''true'' (c # cs) of
               Some r \<Rightarrow> Inr (JBool True, r)
             | None \<Rightarrow>
                 (case strip_prefix ''false'' (c # cs) of
                    Some r \<Rightarrow> Inr (JBool False, r)
                  | None \<Rightarrow>
                      (case strip_prefix ''null'' (c # cs) of
                         Some r \<Rightarrow> Inr (JNull, r)
                       | None \<Rightarrow> Inl SyntaxError))))"
| "parse_elems 0 s = Inl Unmodelled"
| "parse_elems (Suc f) s =
     bind_err (parse_value f s) (\<lambda>(v, r).
       case skip_ws r of
         [] \<Rightarrow> Inl SyntaxError
       | c # r1 \<Rightarrow>
           if c = CHR '','' then bind_err (parse_elems f r1) (\<lambda>(vs, r2). Inr (v # vs, r2))
           else if c = CHR '']'' then Inr ([v], r1)
           else Inl SyntaxError)"
| "parse_members 0 s = Inl Unmodelled"
| "parse_members (Suc f) s =
     (case skip_ws s of
        [] \<Rightarrow> Inl SyntaxError
      | q # cs \<Rightarrow>
          if q \<noteq> CHR 0x22 then Inl SyntaxError
          else bind_err (parse_chars cs) (\<lambda>(k, r).
            case skip_ws r of
              [] \<Rightarrow> Inl SyntaxError
            | c # r1 \<Rightarrow>
                if c \<noteq> CHR '':'' then Inl SyntaxError
                else bind_err (parse_value f r1) (\<lambda>(v, r2).
                  case skip_ws r2 of
                    [] \<Rightarrow> Inl SyntaxError
                  | d # r3 \<Rightarrow>
                      if d = CHR '','' then
                        bind_err (parse_members f r3) (\<lambda>(kvs, r4). Inr ((k, v) # kvs, r4))
                      else if d = CHR ''}'' then Inr ([(k, v)], r3)
                      else Inl SyntaxError)))"

definition JSON_parse :: "string \<Rightarrow> error + jsval" where
  "JSON_parse s =
     bind_err (parse_value (2 * length s + 2) s) (\<lambda>(v, r).
       if skip_ws r = [] then Inr v else Inl SyntaxError)"

text \<open>
  The values that JSON text denotes in this model: no \<^verbatim>\<open>undefined\<close> anywhere, numbers
  that are safe integers, and objects whose property names are distinct (as they are in
  every JavaScript object). A response of the HTTP layer and the result of \<^verbatim>\<open>JSON.parse\<close>
  are such values.
\<close>

fun json_value :: "jsval \<Rightarrow> bool"
  and json_values :: "jsval list \<Rightarrow> bool"
  and json_members :: "(string \<times> jsval) list \<Rightarrow> bool" where
  "json_value JUndefined = False"
| "json_value JNull = True"
| "json_value (JBool b) = True"
| "json_value (JNum i) = (\<bar>i\<bar> < 2 ^ 53)"
| "json_value (JStr s) = True"
| "json_value (JArr xs) = json_values xs"
| "json_value (JObj kvs) = (json_members kvs \<and> distinct (map fst kvs))"
| "json_values [] = True"
| "json_values (x # xs) = (json_value x \<and> json_values xs)"
| "json_members [] = True"
| "json_members ((k, v) # kvs) = (json_value v \<and> json_members kvs)"

text \<open>What may follow a value in JSON text without white space, and what a value may begin
  with.\<close>

definition delim :: "string \<Rightarrow> bool" where
  "delim r = (r = [] \<or> hd r = CHR '','' \<or> hd r = CHR '']'' \<or> hd r = CHR ''}'')"

definition value_start :: "char \<Rightarrow> bool" where
  "value_start c = (\<not> is_ws c \<and> c \<noteq> CHR '']'' \<and> c \<noteq> CHR ''}'')"

section \<open>The Session State Store (studies-general.js)\<close>

text \<open>The state of the store: one field per property of the object that \<^verbatim>\<open>state()\<close>
  returns.\<close>

record store =
  selectedStudy :: jsval
  selectedStudyVersion :: jsval
  studyPreferredTimeUnit :: jsval
  soaPreferredTimeUnit :: jsval
  soaPreferences :: jsval
  studyTypes :: jsval
  trialIntentTypes :: jsval
  trialTypes :: jsval
  trialPhases :: jsval
  interventionTypes :: jsval
  snomedTerms :: jsval
  sexOfParticipants :: jsval
  trialBlindingSchemas :: jsval
  controlTypes :: jsval
  interventionModels :: jsval
  units :: jsval
  nullValues :: jsval
  objectiveLevels :: jsval
  endpointLevels :: jsval
  endpointSubLevels :: jsval
  allUnits :: jsval

definition initial_state :: store where
  "initial_state =
     \<lparr> selectedStudy = JNull, selectedStudyVersion = JNull, studyPreferredTimeUnit = JNull,
       soaPreferredTimeUnit = JNull, soaPreferences = JNull, studyTypes = JArr [],
       trialIntentTypes = JArr [], trialTypes = JArr [], trialPhases = JArr [],
       interventionTypes = JArr [], snomedTerms = JArr [], sexOfParticipants = JArr [],
       trialBlindingSchemas = JArr [], controlTypes = JArr [], interventionModels = JArr [],
       units = JArr [], nullValues = JArr [], objectiveLevels = JArr [],
       endpointLevels = JArr [], endpointSubLevels = JArr [], allUnits = JArr [] \<rparr>"

subsection \<open>What an action can touch\<close>

text \<open>
  The modules \<^verbatim>\<open>@/api/units\<close>, \<^verbatim>\<open>@/api/controlledTerminology/terms\<close>,
  \<^verbatim>\<open>@/api/dictionaries\<close> and \<^verbatim>\<open>@/api/study\<close> that the store imports are not among the
  source files. A call to one of them is recorded by its name and arguments, and the
  promise it returns is a parameter: \<open>api c\<close> is the state of the promise of call \<open>c\<close>
  at the moment the store is observed (still pending, fulfilled with a response, or
  rejected).
\<close>

datatype call = Call string "jsval list"

datatype settled = Pending | Fulfilled jsval | Rejected error

type_synonym api = "call \<Rightarrow> settled"

text \<open>The world of an action: the store, the browser's local storage, the Resource Client
  calls made so far, the page reloads requested, and the rejections that reached no
  handler.\<close>

record world =
  state :: store
  localStorage :: "string \<Rightarrow> string option"
  calls :: "call list"
  reloads :: nat
  unhandled :: "error list"

definition initial_world :: world where
  "initial_world =
     \<lparr> state = initial_state, localStorage = (\<lambda>k. None), calls = [], reloads = 0,
       unhandled = [] \<rparr>"

text \<open>What a function returns to its caller: a plain value or a promise. A caller that
  awaits a plain value continues with it.\<close>

datatype ret = Value jsval | Promise settled

fun await :: "ret \<Rightarrow> settled" where
  "await (Value v) = Fulfilled v"
| "await (Promise p) = p"

definition client_call :: "api \<Rightarrow> call \<Rightarrow> world \<Rightarrow> settled \<times> world" where
  "client_call api c w = (api c, w\<lparr>calls := calls w @ [c]\<rparr>)"

text \<open>\<^verbatim>\<open>p.then(cb)\<close>: the callback runs when \<open>p\<close> is fulfilled; the promise that
  \<^verbatim>\<open>then\<close> returns is rejected when \<open>p\<close> is, or when the callback throws.\<close>

definition then_p ::
  "settled \<Rightarrow> (jsval \<Rightarrow> world \<Rightarrow> error + jsval \<times> world) \<Rightarrow> world \<Rightarrow> settled \<times> world" where
  "then_p p cb w =
     (case p of
        Pending \<Rightarrow> (Pending, w)
      | Rejected e \<Rightarrow> (Rejected e, w)
      | Fulfilled resp \<Rightarrow>
          (case cb resp w of
             Inl e \<Rightarrow> (Rejected e, w)
           | Inr (v, w1) \<Rightarrow> (Fulfilled v, w1)))"

text \<open>A promise that is neither returned nor given a rejection handler: its rejection is
  an unhandled one.\<close>

fun dropped :: "settled \<times> world \<Rightarrow> world" where
  "dropped (Rejected e, w) = w\<lparr>unhandled := unhandled w @ [e]\<rparr>"
| "dropped (p, w) = w"

fun truthy :: "jsval \<Rightarrow> bool" where
  "truthy JUndefined = False"
| "truthy JNull = False"
| "truthy (JBool b) = b"
| "truthy (JNum n) = (n \<noteq> 0)"
| "truthy (JStr s) = (s \<noteq> [])"
| "truthy v = True"

text \<open>\<^verbatim>\<open>v[i]\<close>.\<close>

fun getidx :: "jsval \<Rightarrow> nat \<Rightarrow> error + jsval" where
  "getidx JUndefined i = Inl TypeError"
| "getidx JNull i = Inl TypeError"
| "getidx (JArr xs) i = Inr (if i < length xs then xs ! i else JUndefined)"
| "getidx (JStr s) i = Inr (if i < length s then JStr [s ! i] else JUndefined)"
| "getidx (JObj kvs) i = Inr (own_prop kvs (show_nat i))"
| "getidx v i = Inr JUndefined"

subsection \<open>Getters\<close>

text \<open>
  \<^verbatim>\<open>xs.sort((a, b) => a.order - b.order)\<close>. \<^verbatim>\<open>Array.prototype.sort\<close> moves the
  \<^verbatim>\<open>undefined\<close> elements to the end without comparing them and sorts the others with the
  comparator; the sort is stable. With fewer than two elements to compare the comparator
  is not called. When every compared element is an object with a number as \<^verbatim>\<open>order\<close>, the
  comparator is consistent and the language fixes the result; otherwise the comparator
  throws or answers \<^verbatim>\<open>NaN\<close>, and which of the two the caller sees depends on the engine.
\<close>

fun order_of :: "jsval \<Rightarrow> int option" where
  "order_of (JObj kvs) = (case map_of kvs ''order'' of Some (JNum n) \<Rightarrow> Some n | _ \<Rightarrow> None)"
| "order_of v = None"

definition order_key :: "jsval \<Rightarrow> int" where
  "order_key v = (case order_of v of Some n \<Rightarrow> n | None \<Rightarrow> 0)"

definition sort_by_order :: "jsval list \<Rightarrow> error + jsval list" where
  "sort_by_order xs =
     (let vs = filter (\<lambda>x. x \<noteq> JUndefined) xs;
          us = filter (\<lambda>x. x = JUndefined) xs
      in if length vs < 2 then Inr (vs @ us)
         else if list_all (\<lambda>x. order_of x \<noteq> None) vs then Inr (sort_key order_key vs @ us)
         else Inl Unmodelled)"

text \<open>\<^verbatim>\<open>sort\<close> sorts the array in place and returns that same array: the getter's result
  and the store's field are one object. The getters return their result and the store as
  the access leaves it.\<close>

definition sortedObjectiveLevels :: "store \<Rightarrow> (error + jsval) \<times> store" where
  "sortedObjectiveLevels s =
     (case objectiveLevels s of
        JArr xs \<Rightarrow>
          (case sort_by_order xs of
             Inl e \<Rightarrow> (Inl e, s)
           | Inr ys \<Rightarrow> (Inr (JArr ys), s\<lparr>objectiveLevels := JArr ys\<rparr>))
      | _ \<Rightarrow> (Inl TypeError, s))"

definition sortedEndpointLevels :: "store \<Rightarrow> (error + jsval) \<times> store" where
  "sortedEndpointLevels s =
     (case endpointLevels s of
        JArr xs \<Rightarrow>
          (case sort_by_order xs of
             Inl e \<Rightarrow> (Inl e, s)
           | Inr ys \<Rightarrow> (Inr (JArr ys), s\<lparr>endpointLevels := JArr ys\<rparr>))
      | _ \<Rightarrow> (Inl TypeError, s))"

definition identification_metadata :: "store \<Rightarrow> error + jsval" where
  "identification_metadata s =
     bind_err (getprop (selectedStudy s) ''current_metadata'') (\<lambda>cm.
       getprop cm ''identification_metadata'')"

definition studyId :: "store \<Rightarrow> error + jsval" where
  "studyId s =
     bind_err (bind_err (identification_metadata s) (\<lambda>im. getprop im ''study_number''))
       (\<lambda>studyNumber.
          if studyNumber \<noteq> JUndefined \<and> studyNumber \<noteq> JNull
          then bind_err (identification_metadata s) (\<lambda>im. getprop im ''study_id'')
          else bind_err (identification_metadata s) (\<lambda>im. getprop im ''study_acronym''))"

subsection \<open>Actions\<close>

definition unselectStudy :: "world \<Rightarrow> world" where
  "unselectStudy w =
     w\<lparr>state := (state w)\<lparr>selectedStudy := JNull\<rparr>,
       localStorage := (localStorage w)(''selectedStudy'' := None)\<rparr>"

text \<open>\<^verbatim>\<open>(resp) => { this.F = resp.data }\<close> and \<^verbatim>\<open>(resp) => { this.F = resp.data.items }\<close>
  for a field \<open>F\<close>, given by its update; \<open>items_of resp\<close> is \<^verbatim>\<open>resp.data.items\<close>.\<close>

definition assign_data ::
  "((jsval \<Rightarrow> jsval) \<Rightarrow> store \<Rightarrow> store) \<Rightarrow> jsval \<Rightarrow> world \<Rightarrow> error + jsval \<times> world" where
  "assign_data upd resp w =
     bind_err (getprop resp ''data'') (\<lambda>d.
       Inr (JUndefined, w\<lparr>state := upd (\<lambda>_. d) (state w)\<rparr>))"

definition items_of :: "jsval \<Rightarrow> error + jsval" where
  "items_of resp = bind_err (getprop resp ''data'') (\<lambda>d. getprop d ''items'')"

definition assign_items ::
  "((jsval \<Rightarrow> jsval) \<Rightarrow> store \<Rightarrow> store) \<Rightarrow> jsval \<Rightarrow> world \<Rightarrow> error + jsval \<times> world" where
  "assign_items upd resp w =
     bind_err (items_of resp) (\<lambda>items.
       Inr (JUndefined, w\<lparr>state := upd (\<lambda>_. items) (state w)\<rparr>))"

text \<open>The value that \<^verbatim>\<open>JSON.stringify\<close> returns, and the string that
  \<^verbatim>\<open>localStorage.setItem\<close> makes of it.\<close>

definition stringified :: "jsval \<Rightarrow> jsval" where
  "stringified v = (case JSON_stringify v of None \<Rightarrow> JUndefined | Some t \<Rightarrow> JStr t)"

definition stored_text :: "jsval \<Rightarrow> string" where
  "stored_text v = (case JSON_stringify v of None \<Rightarrow> ''undefined'' | Some t \<Rightarrow> t)"

text \<open>\<^verbatim>\<open>selectStudy\<close> throws when \<^verbatim>\<open>studyObj.current_metadata.version_metadata\<close> cannot be
  read, after it has assigned \<^verbatim>\<open>selectedStudy\<close>. Past that point \<^verbatim>\<open>studyObj\<close> is an object
  and \<^verbatim>\<open>studyObj.uid\<close> is read without failure, once here for the three calls.\<close>

definition version_number_of :: "jsval \<Rightarrow> error + jsval" where
  "version_number_of studyObj =
     bind_err (getprop studyObj ''current_metadata'') (\<lambda>cm.
       bind_err (getprop cm ''version_metadata'') (\<lambda>vm.
         getprop vm ''version_number''))"

definition selectStudy :: "api \<Rightarrow> jsval \<Rightarrow> jsval \<Rightarrow> world \<Rightarrow> (error + ret) \<times> world" where
  "selectStudy api studyObj forceReload w =
     (let w1 = w\<lparr>state := (state w)\<lparr>selectedStudy := studyObj\<rparr>\<rparr>
      in case version_number_of studyObj of
           Inl e \<Rightarrow> (Inl e, w1)
         | Inr version_number \<Rightarrow>
             (let w2 = w1\<lparr>state := (state w1)\<lparr>selectedStudyVersion := version_number\<rparr>\<rparr>;
                  w3 = w2\<lparr>localStorage :=
                            (localStorage w2)(''selectedStudy'' \<mapsto> stored_text studyObj)\<rparr>;
                  w4 = (if truthy forceReload then w3\<lparr>reloads := Suc (reloads w3)\<rparr> else w3)
              in case getprop studyObj ''uid'' of
                   Inl e \<Rightarrow> (Inl e, w4)
                 | Inr uid \<Rightarrow>
                     (let (p1, w5) = client_call api (Call ''study.getStudyPreferredTimeUnit'' [uid]) w4;
                          w6 = dropped (then_p p1 (assign_data studyPreferredTimeUnit_update) w5);
                          (p2, w7) = client_call api (Call ''study.getSoAPreferredTimeUnit'' [uid]) w6;
                          w8 = dropped (then_p p2 (assign_data soaPreferredTimeUnit_update) w7);
                          (p3, w9) = client_call api (Call ''study.getSoAPreferences'' [uid]) w8;
                          w10 = dropped (then_p p3 (assign_data soaPreferences_update) w9)
                      in (Inr (Value JUndefined), w10))))"

text \<open>\<^verbatim>\<open>initialize\<close> is an \<^verbatim>\<open>async\<close> function: what it throws rejects the promise it
  returns, and the promise is pending while the awaited one is.\<close>

definition initialize :: "api \<Rightarrow> world \<Rightarrow> ret \<times> world" where
  "initialize api w =
     (case localStorage w ''selectedStudy'' of
        None \<Rightarrow> (Promise (Fulfilled JUndefined), w)
      | Some selectedStudyText \<Rightarrow>
          if selectedStudyText = [] then (Promise (Fulfilled JUndefined), w)
          else
            (case JSON_parse selectedStudyText of
               Inl e \<Rightarrow> (Promise (Rejected e), w)
             | Inr parsedStudy \<Rightarrow>
                 (case selectStudy api parsedStudy JUndefined w of
                    (Inl e, w1) \<Rightarrow> (Promise (Rejected e), w1)
                  | (Inr r, w1) \<Rightarrow>
                      (case getprop parsedStudy ''uid'' of
                         Inl e \<Rightarrow> (Promise (Fulfilled JUndefined), unselectStudy w1)
                       | Inr uid \<Rightarrow>
                           (let (p, w2) = client_call api (Call ''study.getStudy'' [uid, JBool True]) w1
                            in case p of
                                 Pending \<Rightarrow> (Promise Pending, w2)
                               | Fulfilled resp \<Rightarrow> (Promise (Fulfilled JUndefined), w2)
                               | Rejected e \<Rightarrow> (Promise (Fulfilled JUndefined), unselectStudy w2))))))"

text \<open>The fetch actions: the promise of the call gets a fulfilment handler and is then
  dropped; nothing is returned.\<close>

definition fetch_items ::
  "api \<Rightarrow> call \<Rightarrow> ((jsval \<Rightarrow> jsval) \<Rightarrow> store \<Rightarrow> store) \<Rightarrow> world \<Rightarrow> ret \<times> world" where
  "fetch_items api c upd w =
     (let (p, w1) = client_call api c w;
          w2 = dropped (then_p p (assign_items upd) w1)
      in (Value JUndefined, w2))"

definition fetchUnits :: "api \<Rightarrow> world \<Rightarrow> ret \<times> world" where
  "fetchUnits api = fetch_items api (Call ''units.getBySubset'' [JStr ''Study Time'']) units_update"

definition fetchAllUnits :: "api \<Rightarrow> world \<Rightarrow> ret \<times> world" where
  "fetchAllUnits api =
     fetch_items api (Call ''units.get'' [config (JObj [(''page_size'', JNum 0)])]) allUnits_update"

definition fetchStudyTypes :: "api \<Rightarrow> world \<Rightarrow> ret \<times> world" where
  "fetchStudyTypes api =
     fetch_items api (Call ''terms.getNamesByCodelist'' [JStr ''studyType'']) studyTypes_update"

definition fetchTrialIntentTypes :: "api \<Rightarrow> world \<Rightarrow> ret \<times> world" where
  "fetchTrialIntentTypes api =
     fetch_items api (Call ''terms.getNamesByCodelist'' [JStr ''trialIntentType''])
       trialIntentTypes_update"

definition fetchTrialTypes :: "api \<Rightarrow> world \<Rightarrow> ret \<times> world" where
  "fetchTrialTypes api =
     fetch_items api (Call ''terms.getNamesByCodelist'' [JStr ''trialType'']) trialTypes_update"

definition fetchTrialPhases :: "api \<Rightarrow> world \<Rightarrow> ret \<times> world" where
  "fetchTrialPhases api =
     fetch_items api (Call ''terms.getNamesByCodelist'' [JStr ''trialPhase'']) trialPhases_update"

definition fetchInterventionTypes :: "api \<Rightarrow> world \<Rightarrow> ret \<times> world" where
  "fetchInterventionTypes api =
     fetch_items api (Call ''terms.getNamesByCodelist'' [JStr ''interventionTypes''])
       interventionTypes_update"

definition fetchSexOfParticipants :: "api \<Rightarrow> world \<Rightarrow> ret \<times> world" where
  "fetchSexOfParticipants api =
     fetch_items api (Call ''terms.getNamesByCodelist'' [JStr ''sexOfParticipants''])
       sexOfParticipants_update"

definition fetchTrialBlindingSchemas :: "api \<Rightarrow> world \<Rightarrow> ret \<times> world" where
  "fetchTrialBlindingSchemas api =
     fetch_items api (Call ''terms.getNamesByCodelist'' [JStr ''trialBlindingSchema''])
       trialBlindingSchemas_update"

definition fetchControlTypes :: "api \<Rightarrow> world \<Rightarrow> ret \<times> world" where
  "fetchControlTypes api =
     fetch_items api (Call ''terms.getNamesByCodelist'' [JStr ''controlType'']) controlTypes_update"

definition fetchInterventionModels :: "api \<Rightarrow> world \<Rightarrow> ret \<times> world" where
  "fetchInterventionModels api =
     fetch_items api (Call ''terms.getNamesByCodelist'' [JStr ''interventionModel''])
       interventionModels_update"

definition fetchNullValues :: "api \<Rightarrow> world \<Rightarrow> ret \<times> world" where
  "fetchNullValues api =
     fetch_items api (Call ''terms.getByCodelist'' [JStr ''nullValues'']) nullValues_update"

definition fetchObjectiveLevels :: "api \<Rightarrow> world \<Rightarrow> ret \<times> world" where
  "fetchObjectiveLevels api =
     fetch_items api (Call ''terms.getNamesByCodelist'' [JStr ''objectiveLevels''])
       objectiveLevels_update"

definition fetchEndpointLevels :: "api \<Rightarrow> world \<Rightarrow> ret \<times> world" where
  "fetchEndpointLevels api =
     fetch_items api (Call ''terms.getNamesByCodelist'' [JStr ''endpointLevels''])
       endpointLevels_update"

definition fetchEndpointSubLevels :: "api \<Rightarrow> world \<Rightarrow> ret \<times> world" where
  "fetchEndpointSubLevels api =
     fetch_items api (Call ''terms.getNamesByCodelist'' [JStr ''endpointSubLevels''])
       endpointSubLevels_update"

text \<open>\<^verbatim>\<open>fetchSnomedTerms\<close>: the handler of the first call builds the parameters of the
  second from \<^verbatim>\<open>resp.data.items[0].codelist_uid\<close>; the second promise is dropped inside
  the handler, the first one outside.\<close>

definition snomed_params :: "jsval \<Rightarrow> error + jsval" where
  "snomed_params resp =
     bind_err (items_of resp) (\<lambda>items.
       bind_err (getidx items 0) (\<lambda>first.
         bind_err (getprop first ''codelist_uid'') (\<lambda>codelist_uid.
           Inr (JObj [(''codelist_uid'', codelist_uid),
                      (''page_size'', JNum 0),
                      (''sort_by'', stringified (JObj [(''name'', JBool True)]))]))))"

definition fetchSnomedTerms :: "api \<Rightarrow> world \<Rightarrow> ret \<times> world" where
  "fetchSnomedTerms api w =
     (let (p, w1) = client_call api (Call ''dictionaries.getCodelists'' [JStr ''SNOMED'']) w;
          w2 = dropped (then_p p (\<lambda>resp w.
                 bind_err (snomed_params resp) (\<lambda>params.
                   let (q, w3) = client_call api (Call ''dictionaries.getTerms'' [params]) w;
                       w4 = dropped (then_p q (assign_items snomedTerms_update) w3)
                   in Inr (JUndefined, w4))) w1)
      in (Value JUndefined, w2))"

text \<open>The single-call fetch actions, by name.\<close>

datatype fetch_action =
    FetchUnits | FetchAllUnits | FetchStudyTypes | FetchTrialIntentTypes | FetchTrialTypes
  | FetchTrialPhases | FetchInterventionTypes | FetchSexOfParticipants
  | FetchTrialBlindingSchemas | FetchControlTypes | FetchInterventionModels | FetchNullValues
  | FetchObjectiveLevels | FetchEndpointLevels | FetchEndpointSubLevels

fun run_fetch :: "fetch_action \<Rightarrow> api \<Rightarrow> world \<Rightarrow> ret \<times> world" where
  "run_fetch FetchUnits = fetchUnits"
| "run_fetch FetchAllUnits = fetchAllUnits"
| "run_fetch FetchStudyTypes = fetchStudyTypes"
| "run_fetch FetchTrialIntentTypes = fetchTrialIntentTypes"
| "run_fetch FetchTrialTypes = fetchTrialTypes"
| "run_fetch FetchTrialPhases = fetchTrialPhases"
| "run_fetch FetchInterventionTypes = fetchInterventionTypes"
| "run_fetch FetchSexOfParticipants = fetchSexOfParticipants"
| "run_fetch FetchTrialBlindingSchemas = fetchTrialBlindingSchemas"
| "run_fetch FetchControlTypes = fetchControlTypes"
| "run_fetch FetchInterventionModels = fetchInterventionModels"
| "run_fetch FetchNullValues = fetchNullValues"
| "run_fetch FetchObjectiveLevels = fetchObjectiveLevels"
| "run_fetch FetchEndpointLevels = fetchEndpointLevels"
| "run_fetch FetchEndpointSubLevels = fetchEndpointSubLevels"

text \<open>The field an action is for: how to read it and how to replace it.\<close>

fun field_of :: "fetch_action \<Rightarrow> store \<Rightarrow> jsval" where
  "field_of FetchUnits = units"
| "field_of FetchAllUnits = allUnits"
| "field_of FetchStudyTypes = studyTypes"
| "field_of FetchTrialIntentTypes = trialIntentTypes"
| "field_of FetchTrialTypes = trialTypes"
| "field_of FetchTrialPhases = trialPhases"
| "field_of FetchInterventionTypes = interventionTypes"
| "field_of FetchSexOfParticipants = sexOfParticipants"
| "field_of FetchTrialBlindingSchemas = trialBlindingSchemas"
| "field_of FetchControlTypes = controlTypes"
| "field_of FetchInterventionModels = interventionModels"
| "field_of FetchNullValues = nullValues"
| "field_of FetchObjectiveLevels = objectiveLevels"
| "field_of FetchEndpointLevels = endpointLevels"
| "field_of FetchEndpointSubLevels = endpointSubLevels"

fun set_field :: "fetch_action \<Rightarrow> jsval \<Rightarrow> store \<Rightarrow> store" where
  "set_field FetchUnits v s = s\<lparr>units := v\<rparr>"
| "set_field FetchAllUnits v s = s\<lparr>allUnits := v\<rparr>"
| "set_field FetchStudyTypes v s = s\<lparr>studyTypes := v\<rparr>"
| "set_field FetchTrialIntentTypes v s = s\<lparr>trialIntentTypes := v\<rparr>"
| "set_field FetchTrialTypes v s = s\<lparr>trialTypes := v\<rparr>"
| "set_field FetchTrialPhases v s = s\<lparr>trialPhases := v\<rparr>"
| "set_field FetchInterventionTypes v s = s\<lparr>interventionTypes := v\<rparr>"
| "set_field FetchSexOfParticipants v s = s\<lparr>sexOfParticipants := v\<rparr>"
| "set_field FetchTrialBlindingSchemas v s = s\<lparr>trialBlindingSchemas := v\<rparr>"
| "set_field FetchControlTypes v s = s\<lparr>controlTypes := v\<rparr>"
| "set_field FetchInterventionModels v s = s\<lparr>interventionModels := v\<rparr>"
| "set_field FetchNullValues v s = s\<lparr>nullValues := v\<rparr>"
| "set_field FetchObjectiveLevels v s = s\<lparr>objectiveLevels := v\<rparr>"
| "set_field FetchEndpointLevels v s = s\<lparr>endpointLevels := v\<rparr>"
| "set_field FetchEndpointSubLevels v s = s\<lparr>endpointSubLevels := v\<rparr>"

fun call_of :: "fetch_action \<Rightarrow> call" where
  "call_of FetchUnits = Call ''units.getBySubset'' [JStr ''Study Time'']"
| "call_of FetchAllUnits = Call ''units.get'' [config (JObj [(''page_size'', JNum 0)])]"
| "call_of FetchStudyTypes = Call ''terms.getNamesByCodelist'' [JStr ''studyType'']"
| "call_of FetchTrialIntentTypes = Call ''terms.getNamesByCodelist'' [JStr ''trialIntentType'']"
| "call_of FetchTrialTypes = Call ''terms.getNamesByCodelist'' [JStr ''trialType'']"
| "call_of FetchTrialPhases = Call ''terms.getNamesByCodelist'' [JStr ''trialPhase'']"
| "call_of FetchInterventionTypes = Call ''terms.getNamesByCodelist'' [JStr ''interventionTypes'']"
| "call_of FetchSexOfParticipants = Call ''terms.getNamesByCodelist'' [JStr ''sexOfParticipants'']"
| "call_of FetchTrialBlindingSchemas =
     Call ''terms.getNamesByCodelist'' [JStr ''trialBlindingSchema'']"
| "call_of FetchControlTypes = Call ''terms.getNamesByCodelist'' [JStr ''controlType'']"
| "call_of FetchInterventionModels = Call ''terms.getNamesByCodelist'' [JStr ''interventionModel'']"
| "call_of FetchNullValues = Call ''terms.getByCodelist'' [JStr ''nullValues'']"
| "call_of FetchObjectiveLevels = Call ''terms.getNamesByCodelist'' [JStr ''objectiveLevels'']"
| "call_of FetchEndpointLevels = Call ''terms.getNamesByCodelist'' [JStr ''endpointLevels'']"
| "call_of FetchEndpointSubLevels = Call ''terms.getNamesByCodelist'' [JStr ''endpointSubLevels'']"

section \<open>Reference definitions and fixtures\<close>

text \<open>
  What a pure pass-through operation hands to the HTTP client after the URL: nothing when
  the caller supplies no parameters and no body; the caller's body; the caller's parameters
  or options, as they are, as \<^verbatim>\<open>{ params }\<close>; for an operation that takes its parameters
  one by one and nothing else, the object that holds exactly these under their names.
\<close>

fun passthrough_args :: "ct_call \<Rightarrow> jsval list" where
  "passthrough_args (GetPackages p) = [config p]"
| "passthrough_args (GetPackagesDates n) = [config (JObj [(''catalogue_name'', n)])]"
| "passthrough_args (GetPackagesChanges n f t) =
     [config (JObj [(''catalogue_name'', n), (''old_package_date'', f), (''new_package_date'', t)])]"
| "passthrough_args (GetPackagesCodelistChanges u n f t) =
     [config (JObj [(''catalogue_name'', n), (''old_package_date'', f), (''new_package_date'', t)])]"
| "passthrough_args (CreateSponsorPackage d) = [d]"
| "passthrough_args (GetCodelists opts) = [config opts]"
| "passthrough_args (UpdateCodelistNames u d) = [d]"
| "passthrough_args (GetCodelistTerms p) = [config p]"
| "passthrough_args (GetCodelistTermsNames p) = [config p]"
| "passthrough_args (GetCodelistTermsAttributes u opts) = [config opts]"
| "passthrough_args (CreateCodelistTerm d) = [d]"
| "passthrough_args (AddTermToCodelist u t) = [JObj [(''term_uid'', t)]]"
| "passthrough_args (UpdateCodelistTermOrder u d) = [d]"
| "passthrough_args (UpdateCodelistTermNames u d) = [d]"
| "passthrough_args (UpdateCodelistTermAttributes u d) = [d]"
| "passthrough_args (UpdateCodelistAttributes u d) = [d]"
| "passthrough_args (CreateCodelist d) = [d]"
| "passthrough_args c = []"

text \<open>Fixtures: a level with an \<^verbatim>\<open>order\<close>, a study with a given \<^verbatim>\<open>study_number\<close>, a
  response envelope with given \<^verbatim>\<open>items\<close>, and HTTP layers that reject or fulfil every
  call.\<close>

definition level :: "int \<Rightarrow> jsval" where
  "level n = JObj [(''order'', JNum n)]"

definition fixture_identification :: "jsval \<Rightarrow> jsval" where
  "fixture_identification study_number =
     JObj [(''study_number'', study_number), (''study_id'', JStr ''CDISC DEV-0001''),
           (''study_acronym'', JStr ''DEV'')]"

definition fixture_study :: "jsval \<Rightarrow> jsval" where
  "fixture_study study_number =
     JObj [(''uid'', JStr ''Study_000001''),
           (''current_metadata'',
            JObj [(''identification_metadata'', fixture_identification study_number),
                  (''version_metadata'', JObj [(''version_number'', JNum 2)])])]"

definition envelope :: "jsval \<Rightarrow> jsval" where
  "envelope items = JObj [(''data'', JObj [(''items'', items)])]"

definition network_error :: error where
  "network_error = Rejection (JStr ''Network Error'')"

definition failing_api :: api where
  "failing_api c = Rejected network_error"

definition serving_api :: "jsval \<Rightarrow> api" where
  "serving_api items c = Fulfilled (envelope items)"

definition two_codelists :: jsval where
  "two_codelists =
     JArr [JObj [(''codelist_uid'', JStr ''DictionaryCodelist_000001'')],
           JObj [(''codelist_uid'', JStr ''DictionaryCodelist_000002'')]]"

definition persisted_world :: world where
  "persisted_world =
     initial_world\<lparr>localStorage :=
       (localStorage initial_world)
         (''selectedStudy'' \<mapsto> stored_text (fixture_study (JStr ''0001'')))\<rparr>"

section \<open>Properties\<close>

lemmas ct_defs =
  getCatalogues_def getPackages_def getSponsorPackages_def getPackagesDates_def
  getPackagesChanges_def getPackagesCodelistChanges_def createSponsorPackage_def
  getCodelists_def getCodelistNames_def getCodelistNamesVersions_def updateCodelistNames_def
  newCodelistNamesVersion_def approveCodelistNames_def getCodelistAttributes_def
  getCodelistAttributesVersions_def newCodelistAttributesVersion_def
  approveCodelistAttributes_def getCodelistTerms_def getCodelistTermsNames_def
  getCodelistTermNames_def getCodelistTermNamesVersions_def newCodelistTermNamesVersion_def
  approveCodelistTermNames_def inactivateCodelistTermNames_def
  reactivateCodelistTermNames_def deleteCodelistTermNames_def getCodelistTermsAttributes_def
  getCodelistTermAttributes_def getCodelistTermAttributesVersions_def
  newCodelistTermAttributesVersion_def approveCodelistTermAttributes_def
  inactivateCodelistTermAttributes_def reactivateCodelistTermAttributes_def
  deleteCodelistTermAttributes_def createCodelistTerm_def addTermToCodelist_def
  removeTermFromCodelist_def updateCodelistTermOrder_def updateCodelistTermNames_def
  updateCodelistTermAttributes_def updateCodelistAttributes_def createCodelist_def
  getStats_def

lemma invoke_request_of: "invoke rp c = rp (request_of c)"
  unfolding request_of_def by (cases c) (simp_all add: ct_defs Let_def)

lemma spread_page_size:
  "(map_of kvs ''page_size'' = Some (JNum (- 1))) = (own_prop kvs ''page_size'' = JNum (- 1))"
  by (simp add: own_prop_def split: option.splits)

lemma getCodelistTermsAttributes_request:
  "req_args (request_of (GetCodelistTermsAttributes codelistUid opts))
     = [config (JObj (AList.update ''codelist_uid'' codelistUid (spread opts)))]"
  by (simp add: request_of_def getCodelistTermsAttributes_def)

lemma getCodelists_request:
  "req_args (request_of (GetCodelists opts))
     = [config (JObj (if own_prop (spread opts) ''page_size'' = JNum (- 1)
                      then AList.update ''page_size'' (JNum 1000) (spread opts)
                      else spread opts))]"
  by (simp add: request_of_def getCodelists_def spread_page_size)

subsection \<open>Parsing what the serializer writes\<close>

lemma of_char_digit_char: "n < 10 \<Longrightarrow> (of_char (digit_char n) :: nat) = 48 + n"
  unfolding digit_char_def of_char_of by simp

lemma is_digit_digit_char: "n < 10 \<Longrightarrow> is_digit (digit_char n)"
  unfolding is_digit_def by (simp only: of_char_digit_char) simp

lemma digit_val_digit_char: "n < 10 \<Longrightarrow> digit_val (digit_char n) = n"
  unfolding digit_val_def by (simp only: of_char_digit_char)

lemma of_char_zero: "(of_char (CHR ''0'') :: nat) = 48"
  by simp

lemma digit_char_zero:
  assumes "n < 10"
  shows "(digit_char n = CHR ''0'') = (n = 0)"
proof -
  have "(digit_char n = CHR ''0'') = ((of_char (digit_char n) :: nat) = of_char (CHR ''0''))"
    by (simp only: of_char_eq_iff)
  also have "\<dots> = (48 + n = 48)"
    by (simp only: of_char_digit_char [OF assms] of_char_zero)
  finally show ?thesis by simp
qed

lemma show_nat_nonempty: "show_nat n \<noteq> []"
  by (subst show_nat.simps) simp

lemma show_nat_digits: "\<forall>c\<in>set (show_nat n). is_digit c"
proof (induction n rule: show_nat.induct)
  case (1 n)
  show ?case
  proof (cases "n < 10")
    case True
    then show ?thesis by (subst show_nat.simps) (simp add: is_digit_digit_char)
  next
    case False
    with 1 show ?thesis by (subst show_nat.simps) (simp add: is_digit_digit_char)
  qed
qed

lemma digits_val_snoc: "digits_val (ds @ [c]) = 10 * digits_val ds + digit_val c"
  by (simp add: digits_val_def)

lemma digits_val_show_nat: "digits_val (show_nat n) = n"
proof (induction n rule: show_nat.induct)
  case (1 n)
  show ?case
  proof (cases "n < 10")
    case True
    then show ?thesis
      by (subst show_nat.simps) (simp add: digits_val_def digit_val_digit_char)
  next
    case False
    with 1 have "digits_val (show_nat (n div 10)) = n div 10" by simp
    with False show ?thesis
      by (subst show_nat.simps) (simp add: digits_val_snoc digit_val_digit_char)
  qed
qed

lemma show_nat_hd_zero: "hd (show_nat n) = CHR ''0'' \<Longrightarrow> n = 0"
proof (induction n rule: show_nat.induct)
  case (1 n)
  show ?case
  proof (cases "n < 10")
    case True
    with 1(2) show ?thesis
      by (subst (asm) show_nat.simps) (simp add: digit_char_zero)
  next
    case False
    with 1(2) have "hd (show_nat (n div 10)) = CHR ''0''"
      by (subst (asm) show_nat.simps) (simp add: show_nat_nonempty)
    with 1(1) False have "n div 10 = 0" by simp
    with False show ?thesis by simp
  qed
qed

lemma show_nat_no_leading_zero: "1 < length (show_nat n) \<Longrightarrow> hd (show_nat n) \<noteq> CHR ''0''"
proof
  assume len: "1 < length (show_nat n)" and "hd (show_nat n) = CHR ''0''"
  then have "n = 0" by (rule_tac show_nat_hd_zero)
  then have "show_nat n = [digit_char 0]" by (subst show_nat.simps) simp
  with len show False by simp
qed

lemma show_nat_hd_digit: "is_digit (hd (show_nat n))"
  using show_nat_digits [of n] show_nat_nonempty [of n] by (cases "show_nat n") auto

lemma delim_not_digit: "delim r \<Longrightarrow> r \<noteq> [] \<Longrightarrow> \<not> is_digit (hd r)"
  by (auto simp: delim_def is_digit_def)

lemma takeWhile_digits: "delim r \<Longrightarrow> takeWhile is_digit (show_nat n @ r) = show_nat n"
  using show_nat_digits [of n] delim_not_digit [of r]
  by (cases r) (auto simp: takeWhile_append2 takeWhile_append)

lemma dropWhile_digits: "delim r \<Longrightarrow> dropWhile is_digit (show_nat n @ r) = r"
  using show_nat_digits [of n] delim_not_digit [of r]
  by (cases r) (auto simp: dropWhile_append2 dropWhile_append)

lemma parse_number_show_int:
  assumes "\<bar>i\<bar> < 2 ^ 53" and "delim r"
  shows "parse_number (show_int i @ r) = Inr (JNum i, r)"
proof (cases "i < 0")
  case True
  have nd: "\<not> (r \<noteq> [] \<and> hd r \<in> {CHR ''.'', CHR ''e'', CHR ''E''})"
    using assms(2) by (auto simp: delim_def)
  from True assms(1) have "int (nat (- i)) < 2 ^ 53" by simp
  with True nd show ?thesis
    using show_nat_no_leading_zero [of "nat (- i)"]
    by (simp add: parse_number_def show_int_def Let_def takeWhile_digits dropWhile_digits
        assms(2) show_nat_nonempty digits_val_show_nat)
next
  case False
  have nd: "\<not> (r \<noteq> [] \<and> hd r \<in> {CHR ''.'', CHR ''e'', CHR ''E''})"
    using assms(2) by (auto simp: delim_def)
  have nm: "hd (show_nat (nat i) @ r) \<noteq> CHR ''-''"
    using show_nat_hd_digit [of "nat i"] show_nat_nonempty [of "nat i"]
    by (auto simp: is_digit_def)
  from False assms(1) have "int (nat i) < 2 ^ 53" by simp
  with False nd nm show ?thesis
    using show_nat_no_leading_zero [of "nat i"]
    by (simp add: parse_number_def show_int_def Let_def takeWhile_digits dropWhile_digits
        assms(2) show_nat_nonempty digits_val_show_nat)
qed

lemma hex_val_hex_char: "d < 16 \<Longrightarrow> hex_val (hex_char d) = Some d"
  unfolding hex_val_def hex_char_def Let_def
  by (cases "d < 10") (simp_all only: of_char_of if_True if_False, simp_all)

lemma hex_val_zero: "hex_val (CHR ''0'') = Some 0"
  by (simp add: hex_val_def)

lemma hex4_control:
  assumes "n < 32"
  shows "hex4 (CHR ''0'') (CHR ''0'') (hex_char (n div 16)) (hex_char (n mod 16)) = Some n"
proof -
  from assms have "n div 16 < 16" by simp
  then have a: "hex_val (hex_char (n div 16)) = Some (n div 16)" by (rule hex_val_hex_char)
  have b: "hex_val (hex_char (n mod 16)) = Some (n mod 16)" by (rule hex_val_hex_char) simp
  show ?thesis by (simp add: hex4_def hex_val_zero a b)
qed

lemma parse_chars_escaped: "parse_chars (escape_char c @ t) = cons_char c (parse_chars t)"
proof -
  consider (quote) "c = CHR 0x22" | (backslash) "c = CHR 0x5C" | (b) "c = CHR 0x08"
    | (f) "c = CHR 0x0C" | (n) "c = CHR 0x0A" | (r) "c = CHR 0x0D" | (t) "c = CHR 0x09"
    | (control) "c \<notin> {CHR 0x22, CHR 0x5C, CHR 0x08, CHR 0x0C, CHR 0x0A, CHR 0x0D, CHR 0x09}"
        "(of_char c :: nat) < 32"
    | (plain) "c \<notin> {CHR 0x22, CHR 0x5C, CHR 0x08, CHR 0x0C, CHR 0x0A, CHR 0x0D, CHR 0x09}"
        "\<not> (of_char c :: nat) < 32"
    by blast
  then show ?thesis
  proof cases
    case control
    then have "escape_char c =
        [CHR 0x5C, CHR ''u'', CHR ''0'', CHR ''0'',
         hex_char ((of_char c :: nat) div 16), hex_char ((of_char c :: nat) mod 16)]"
      by (simp add: escape_char_def)
    with control show ?thesis
      by (simp add: hex4_control)
  next
    case plain
    then have "escape_char c = [c]" by (simp add: escape_char_def)
    with plain show ?thesis by simp
  qed (simp_all add: escape_char_def unescape_def)
qed

lemma parse_chars_quote: "parse_chars (concat (map escape_char s) @ CHR 0x22 # r) = Inr (s, r)"
  by (induction s) (simp_all add: parse_chars_escaped cons_char_def del: parse_chars.simps,
      simp)

lemma parse_chars_quoted: "parse_chars (tl (quote s) @ r) = Inr (s, r)"
  using parse_chars_quote [of s r] by (simp add: quote_def)

lemma update_fresh: "k \<notin> fst ` set acc \<Longrightarrow> AList.update k v acc = acc @ [(k, v)]"
  by (induction acc) auto

lemma foldl_update_distinct:
  "distinct (map fst (acc @ kvs)) \<Longrightarrow>
     foldl (\<lambda>acc (k, v). AList.update k v acc) acc kvs = acc @ kvs"
proof (induction kvs arbitrary: acc)
  case Nil
  then show ?case by simp
next
  case (Cons kv kvs)
  obtain k v where kv: "kv = (k, v)" by (cases kv)
  from Cons.prems kv have fresh: "k \<notin> fst ` set acc" by auto
  from Cons.prems kv have "distinct (map fst ((acc @ [(k, v)]) @ kvs))" by auto
  then have "foldl (\<lambda>acc (k, v). AList.update k v acc) (acc @ [(k, v)]) kvs = (acc @ [(k, v)]) @ kvs"
    by (rule Cons.IH)
  with fresh kv show ?case by (simp add: update_fresh)
qed

lemma object_of_distinct: "distinct (map fst kvs) \<Longrightarrow> object_of kvs = JObj kvs"
  using foldl_update_distinct [of "[]" kvs] by (simp add: object_of_def)

lemma skip_ws_Cons: "\<not> is_ws c \<Longrightarrow> skip_ws (c # cs) = c # cs"
  by (simp add: skip_ws_def)

lemma skip_ws_delim: "delim r \<Longrightarrow> skip_ws r = r"
  by (cases r) (auto simp: delim_def skip_ws_def is_ws_def)

lemma show_int_first:
  "\<exists>c cs. show_int i = c # cs \<and> (c = CHR ''-'' \<or> is_digit c)"
proof (cases "i < 0")
  case True
  then show ?thesis by (simp add: show_int_def)
next
  case False
  obtain c cs where "show_nat (nat i) = c # cs"
    using show_nat_nonempty [of "nat i"] by (cases "show_nat (nat i)") auto
  with False show_nat_hd_digit [of "nat i"] show ?thesis by (simp add: show_int_def)
qed

lemma digit_value_start: "c = CHR ''-'' \<or> is_digit c \<Longrightarrow> value_start c"
  by (auto simp: value_start_def is_ws_def is_digit_def)

lemma stringify_first:
  "JSON_stringify v = Some t \<Longrightarrow> \<exists>c cs. t = c # cs \<and> value_start c"
proof (cases v)
  case (JNum i)
  assume "JSON_stringify v = Some t"
  with JNum have "t = show_int i" by simp
  with show_int_first [of i] digit_value_start show ?thesis by blast
qed (auto simp: value_start_def is_ws_def quote_def)

lemma json_value_stringify: "json_value v \<Longrightarrow> \<exists>t. JSON_stringify v = Some t"
  by (cases v) simp_all

lemma strip_prefix_append: "strip_prefix p (p @ r) = Some r"
  by (simp add: strip_prefix_def)

lemma parse_value_null: "parse_value (Suc f) (''null'' @ r) = Inr (JNull, r)"
  using strip_prefix_append [of "''null''" r]
  by (simp add: skip_ws_def is_ws_def is_digit_def strip_prefix_def)

lemma parse_value_true: "parse_value (Suc f) (''true'' @ r) = Inr (JBool True, r)"
  by (simp add: skip_ws_def is_ws_def is_digit_def strip_prefix_def)

lemma parse_value_false: "parse_value (Suc f) (''false'' @ r) = Inr (JBool False, r)"
  by (simp add: skip_ws_def is_ws_def is_digit_def strip_prefix_def)

lemma parse_value_string: "parse_value (Suc f) (quote s @ r) = Inr (JStr s, r)"
  using parse_chars_quote [of s r]
  by (simp add: quote_def skip_ws_def is_ws_def del: parse_chars.simps)

lemma parse_value_number:
  assumes "\<bar>i\<bar> < 2 ^ 53" and "delim r"
  shows "parse_value (Suc f) (show_int i @ r) = Inr (JNum i, r)"
proof -
  obtain c cs where t: "show_int i = c # cs" and c: "c = CHR ''-'' \<or> is_digit c"
    using show_int_first [of i] by blast
  from c have "value_start c" by (rule digit_value_start)
  then have ws: "\<not> is_ws c" by (simp add: value_start_def)
  from c have ne: "c \<noteq> CHR ''{''" "c \<noteq> CHR ''[''" "c \<noteq> CHR 0x22"
    by (auto simp: is_digit_def)
  have "parse_value (Suc f) (show_int i @ r) = parse_number (show_int i @ r)"
    using c ne by (simp add: t skip_ws_Cons [OF ws])
  with assms show ?thesis by (simp add: parse_number_show_int)
qed

lemma parse_value_array_empty: "parse_value (Suc f) (CHR ''['' # CHR '']'' # r) = Inr (JArr [], r)"
  by (simp add: skip_ws_def is_ws_def)

lemma parse_value_object_empty: "parse_value (Suc f) (CHR ''{'' # CHR ''}'' # r) = Inr (JObj [], r)"
  by (simp add: skip_ws_def is_ws_def)

lemma parse_value_array:
  "value_start c \<Longrightarrow>
     parse_value (Suc f) (CHR ''['' # c # cs) =
       bind_err (parse_elems f (c # cs)) (\<lambda>(vs, r). Inr (JArr vs, r))"
  by (simp add: skip_ws_def is_ws_def value_start_def)

lemma parse_value_object:
  "value_start c \<Longrightarrow>
     parse_value (Suc f) (CHR ''{'' # c # cs) =
       bind_err (parse_members f (c # cs)) (\<lambda>(kvs, r). Inr (object_of kvs, r))"
  by (simp add: skip_ws_def is_ws_def value_start_def)

lemma parse_elems_more:
  "parse_value f s = Inr (v, CHR '','' # r1) \<Longrightarrow>
     parse_elems (Suc f) s = bind_err (parse_elems f r1) (\<lambda>(vs, r2). Inr (v # vs, r2))"
  by (simp add: skip_ws_def is_ws_def)

lemma parse_elems_last:
  "parse_value f s = Inr (v, CHR '']'' # r1) \<Longrightarrow> parse_elems (Suc f) s = Inr ([v], r1)"
  by (simp add: skip_ws_def is_ws_def)

lemma parse_members_more:
  "parse_value f s = Inr (v, CHR '','' # r1) \<Longrightarrow>
     parse_members (Suc f) (quote k @ CHR '':'' # s) =
       bind_err (parse_members f r1) (\<lambda>(kvs, r2). Inr ((k, v) # kvs, r2))"
  using parse_chars_quote [of k "CHR '':'' # s"]
  by (simp add: quote_def skip_ws_def is_ws_def del: parse_chars.simps)

lemma parse_members_last:
  "parse_value f s = Inr (v, CHR ''}'' # r1) \<Longrightarrow>
     parse_members (Suc f) (quote k @ CHR '':'' # s) = Inr ([(k, v)], r1)"
  using parse_chars_quote [of k "CHR '':'' # s"]
  by (simp add: quote_def skip_ws_def is_ws_def del: parse_chars.simps)

lemma stringify_elems_empty: "(stringify_elems xs = []) = (xs = [])"
  by (cases xs) simp_all

lemma stringify_members_empty: "json_members kvs \<Longrightarrow> (stringify_members kvs = []) = (kvs = [])"
proof (cases kvs)
  case Nil
  then show ?thesis by simp
next
  case (Cons kv kvs')
  obtain k v where kv: "kv = (k, v)" by (cases kv)
  assume "json_members kvs"
  with Cons kv have "json_value v" by simp
  then obtain t where "JSON_stringify v = Some t" using json_value_stringify by blast
  with Cons kv show ?thesis by simp
qed

lemma join_comma_Cons:
  "join_comma (t # ts) = (if ts = [] then t else t @ CHR '','' # join_comma ts)"
  by (cases ts) simp_all

lemma stringify_elems_first:
  assumes "json_values xs" and "xs \<noteq> []"
  shows "\<exists>c cs. join_comma (stringify_elems xs) = c # cs \<and> value_start c"
proof -
  from assms obtain x xs' where xs: "xs = x # xs'" and x: "json_value x" and "json_values xs'"
    by (cases xs) auto
  from x obtain t where t: "JSON_stringify x = Some t" using json_value_stringify by blast
  then obtain c cs where "t = c # cs" "value_start c" using stringify_first by blast
  with xs t show ?thesis by (simp add: join_comma_Cons)
qed

lemma stringify_members_first:
  assumes "json_members kvs" and "kvs \<noteq> []"
  shows "\<exists>c cs. join_comma (stringify_members kvs) = c # cs \<and> value_start c"
proof -
  from assms obtain k v kvs' where kvs: "kvs = (k, v) # kvs'" and v: "json_value v"
    by (cases kvs) auto
  from v obtain t where t: "JSON_stringify v = Some t" using json_value_stringify by blast
  with kvs show ?thesis
    by (simp add: join_comma_Cons quote_def value_start_def is_ws_def)
qed

lemma delim_simps: "delim []" "delim (CHR '','' # r)" "delim (CHR '']'' # r)" "delim (CHR ''}'' # r)"
  by (simp_all add: delim_def)

lemma parse_stringify:
  "json_value v \<Longrightarrow> JSON_stringify v = Some t \<Longrightarrow> 2 * length t < f \<Longrightarrow> delim r \<Longrightarrow>
     parse_value f (t @ r) = Inr (v, r)"
  "json_values xs \<Longrightarrow> xs \<noteq> [] \<Longrightarrow> 2 * length (join_comma (stringify_elems xs)) + 1 < f \<Longrightarrow>
     parse_elems f (join_comma (stringify_elems xs) @ CHR '']'' # r) = Inr (xs, r)"
  "json_members kvs \<Longrightarrow> kvs \<noteq> [] \<Longrightarrow>
     2 * length (join_comma (stringify_members kvs)) + 1 < f \<Longrightarrow>
     parse_members f (join_comma (stringify_members kvs) @ CHR ''}'' # r) = Inr (kvs, r)"
proof (induction v and xs and kvs arbitrary: t f r and f r and f r
    rule: JSON_stringify_stringify_elems_stringify_members.induct)
  case 1
  then show ?case by simp
next
  case 2
  then obtain f' where "f = Suc f'" by (cases f) auto
  with 2 show ?case using parse_value_null [of f' r] by auto
next
  case (3 b)
  then obtain f' where "f = Suc f'" by (cases f) auto
  with 3 show ?case using parse_value_true [of f' r] parse_value_false [of f' r]
    by (cases b) auto
next
  case (4 i)
  then obtain f' where "f = Suc f'" by (cases f) auto
  with 4 show ?case using parse_value_number [of i r f'] by auto
next
  case (5 s)
  then obtain f' where "f = Suc f'" by (cases f) auto
  with 5 show ?case using parse_value_string [of f' s r] by auto
next
  case (6 xs)
  let ?j = "join_comma (stringify_elems xs)"
  from "6.prems" have t: "t = CHR ''['' # ?j @ '']''" by simp
  with "6.prems" obtain f' where f: "f = Suc f'" and f': "2 * length ?j + 1 < f'" by (cases f) auto
  show ?case
  proof (cases "xs = []")
    case True
    then show ?thesis by (simp add: t f parse_value_array_empty del: parse_value.simps)
  next
    case False
    from "6.prems" have js: "json_values xs" by simp
    then obtain c cs where j: "?j = c # cs" and c: "value_start c"
      using stringify_elems_first False by blast
    have "parse_elems f' (?j @ CHR '']'' # r) = Inr (xs, r)"
      using js False f' by (rule "6.IH")
    then have "parse_elems f' (c # (cs @ CHR '']'' # r)) = Inr (xs, r)" by (simp add: j)
    with c show ?thesis
      by (simp add: t f j parse_value_array del: parse_value.simps parse_elems.simps)
  qed
next
  case (7 kvs)
  let ?j = "join_comma (stringify_members kvs)"
  from "7.prems" have t: "t = CHR ''{'' # ?j @ ''}''" by simp
  with "7.prems" obtain f' where f: "f = Suc f'" and f': "2 * length ?j + 1 < f'" by (cases f) auto
  from "7.prems" have d: "distinct (map fst kvs)" by simp
  show ?case
  proof (cases "kvs = []")
    case True
    then show ?thesis by (simp add: t f parse_value_object_empty del: parse_value.simps)
  next
    case False
    from "7.prems" have js: "json_members kvs" by simp
    then obtain c cs where j: "?j = c # cs" and c: "value_start c"
      using stringify_members_first False by blast
    have "parse_members f' (?j @ CHR ''}'' # r) = Inr (kvs, r)"
      using js False f' by (rule "7.IH")
    then have "parse_members f' (c # (cs @ CHR ''}'' # r)) = Inr (kvs, r)" by (simp add: j)
    with c d show ?thesis
      by (simp add: t f j parse_value_object object_of_distinct
          del: parse_value.simps parse_members.simps)
  qed
next
  case 8
  then show ?case by simp
next
  case (9 x xs)
  from "9.prems" have x: "json_value x" and xs: "json_values xs" by simp_all
  from x obtain tx where tx: "JSON_stringify x = Some tx" using json_value_stringify by blast
  let ?j = "join_comma (stringify_elems xs)"
  show ?case
  proof (cases "xs = []")
    case True
    with tx have j: "join_comma (stringify_elems (x # xs)) = tx" by simp
    with "9.prems" obtain f' where f: "f = Suc f'" and f': "2 * length tx < f'" by (cases f) auto
    have "parse_value f' (tx @ CHR '']'' # r) = Inr (x, CHR '']'' # r)"
      using x tx f' by (rule "9.IH"(1)) (rule delim_simps)
    then have pe: "parse_elems (Suc f') (tx @ CHR '']'' # r) = Inr ([x], r)"
      by (rule parse_elems_last)
    have "parse_elems f (join_comma (stringify_elems (x # xs)) @ CHR '']'' # r)
        = parse_elems (Suc f') (tx @ CHR '']'' # r)"
      by (simp only: j f)
    also note pe
    also have "Inr ([x], r) = Inr (x # xs, r)" by (simp only: True)
    finally show ?thesis .
  next
    case False
    then have ne: "stringify_elems xs \<noteq> []" by (simp add: stringify_elems_empty)
    with tx have j: "join_comma (stringify_elems (x # xs)) = tx @ CHR '','' # ?j"
      by (simp add: join_comma_Cons)
    with "9.prems" obtain f' where f: "f = Suc f'" and f1: "2 * length tx < f'"
      and f2: "2 * length ?j + 1 < f'" by (cases f) auto
    have "parse_value f' (tx @ CHR '','' # ?j @ CHR '']'' # r) = Inr (x, CHR '','' # ?j @ CHR '']'' # r)"
      using x tx f1 by (rule "9.IH"(1)) (rule delim_simps)
    then have "parse_elems (Suc f') (tx @ CHR '','' # ?j @ CHR '']'' # r) =
        bind_err (parse_elems f' (?j @ CHR '']'' # r)) (\<lambda>(vs, r2). Inr (x # vs, r2))"
      by (rule parse_elems_more)
    moreover have "parse_elems f' (?j @ CHR '']'' # r) = Inr (xs, r)"
      using xs False f2 by (rule "9.IH"(2))
    ultimately show ?thesis by (simp only: j f append.simps append_assoc bind_err.simps prod.case)
  qed
next
  case 10
  then show ?case by simp
next
  case (11 k v kvs)
  from "11.prems" have v: "json_value v" and kvs: "json_members kvs" by simp_all
  from v obtain tv where tv: "JSON_stringify v = Some tv" using json_value_stringify by blast
  let ?j = "join_comma (stringify_members kvs)"
  show ?case
  proof (cases "kvs = []")
    case True
    with tv have j: "join_comma (stringify_members ((k, v) # kvs)) = quote k @ CHR '':'' # tv"
      by simp
    with "11.prems" obtain f' where f: "f = Suc f'" and f': "2 * length tv < f'"
      by (cases f) auto
    have "parse_value f' (tv @ CHR ''}'' # r) = Inr (v, CHR ''}'' # r)"
      using v tv f' by (rule "11.IH"(1)) (rule delim_simps)
    then have pm: "parse_members (Suc f') (quote k @ CHR '':'' # tv @ CHR ''}'' # r)
        = Inr ([(k, v)], r)"
      by (rule parse_members_last)
    have "parse_members f (join_comma (stringify_members ((k, v) # kvs)) @ CHR ''}'' # r)
        = parse_members (Suc f') (quote k @ CHR '':'' # tv @ CHR ''}'' # r)"
      by (simp only: j f append.simps append_assoc)
    also note pm
    also have "Inr ([(k, v)], r) = Inr ((k, v) # kvs, r)" by (simp only: True)
    finally show ?thesis .
  next
    case False
    with kvs have ne: "stringify_members kvs \<noteq> []" by (simp add: stringify_members_empty)
    with tv have j: "join_comma (stringify_members ((k, v) # kvs))
        = (quote k @ CHR '':'' # tv) @ CHR '','' # ?j"
      by (simp add: join_comma_Cons)
    with "11.prems" obtain f' where f: "f = Suc f'" and f1: "2 * length tv < f'"
      and f2: "2 * length ?j + 1 < f'" by (cases f) auto
    have "parse_value f' (tv @ CHR '','' # ?j @ CHR ''}'' # r) = Inr (v, CHR '','' # ?j @ CHR ''}'' # r)"
      using v tv f1 by (rule "11.IH"(1)) (rule delim_simps)
    then have "parse_members (Suc f') (quote k @ CHR '':'' # tv @ CHR '','' # ?j @ CHR ''}'' # r) =
        bind_err (parse_members f' (?j @ CHR ''}'' # r)) (\<lambda>(kvs, r2). Inr ((k, v) # kvs, r2))"
      by (rule parse_members_more)
    moreover have "parse_members f' (?j @ CHR ''}'' # r) = Inr (kvs, r)"
      using tv kvs False f2 by (rule "11.IH"(3))
    ultimately show ?thesis by (simp only: j f append.simps append_assoc bind_err.simps prod.case)
  qed
qed

lemma JSON_roundtrip:
  assumes "json_value v"
  shows "\<exists>t. JSON_stringify v = Some t \<and> JSON_parse t = Inr v"
proof -
  from assms obtain t where t: "JSON_stringify v = Some t" using json_value_stringify by blast
  have "parse_value (2 * length t + 2) (t @ []) = Inr (v, [])"
    using assms t by (rule parse_stringify(1)) (simp_all add: delim_def)
  then have "JSON_parse t = Inr v" by (simp add: JSON_parse_def skip_ws_def)
  with t show ?thesis by simp
qed

text \<open>The fuel of \<open>JSON_parse\<close> is enough for every text: the parser never returns more
  than it was given, and above twice the length of the text more fuel does not change its
  result.\<close>

lemma skip_ws_length: "length (skip_ws s) \<le> length s"
  by (simp add: skip_ws_def length_dropWhile_le)

lemma cons_char_Inr:
  "cons_char c m = Inr (t, r) \<Longrightarrow> \<exists>t'. m = Inr (t', r) \<and> t = c # t'"
  by (cases m) (auto simp: cons_char_def)

lemma parse_chars_length: "parse_chars s = Inr (t, r) \<Longrightarrow> length r < length s"
proof (induction s arbitrary: t r rule: length_induct)
  case (1 s)
  show ?case
  proof (cases s)
    case Nil
    with 1(2) show ?thesis by simp
  next
    case (Cons c cs)
    with 1 show ?thesis
      by (force split: if_splits list.splits option.splits dest!: cons_char_Inr)
  qed
qed

lemma strip_prefix_length: "strip_prefix p s = Some r \<Longrightarrow> length r \<le> length s"
  by (auto simp: strip_prefix_def split: if_splits)

lemma parse_number_length: "parse_number s = Inr (v, r) \<Longrightarrow> length r \<le> length s"
proof -
  have "length (dropWhile is_digit (tl s)) \<le> length s"
    using length_dropWhile_le [of is_digit "tl s"] by simp
  moreover have "length (dropWhile is_digit s) \<le> length s"
    by (rule length_dropWhile_le)
  moreover assume "parse_number s = Inr (v, r)"
  ultimately show ?thesis
    by (auto simp: parse_number_def Let_def split: if_splits)
qed

lemma skip_ws_Cons_length: "skip_ws s = c # cs \<Longrightarrow> length cs < length s"
  using skip_ws_length [of s] by simp

lemma tl_skip_ws_length: "length (tl (skip_ws s)) \<le> length s"
  using skip_ws_length [of s] by simp

lemma bind_err_Inr: "bind_err m g = Inr y \<Longrightarrow> \<exists>x. m = Inr x \<and> g x = Inr y"
  by (cases m) auto

lemma strip_prefix_Cons_length:
  "strip_prefix p (c # cs) = Some r \<Longrightarrow> length r \<le> Suc (length cs)"
  by (drule strip_prefix_length) simp

lemma parse_number_Cons_length:
  "parse_number (c # cs) = Inr (v, r) \<Longrightarrow> length r \<le> Suc (length cs)"
  by (drule parse_number_length) simp

lemma parse_length:
  "(\<forall>s v r. parse_value f s = Inr (v, r) \<longrightarrow> length r \<le> length s)
   \<and> (\<forall>s vs r. parse_elems f s = Inr (vs, r) \<longrightarrow> length r \<le> length s)
   \<and> (\<forall>s kvs r. parse_members f s = Inr (kvs, r) \<longrightarrow> length r \<le> length s)"
proof (induction f)
  case 0
  show ?case by simp
next
  case (Suc f)
  then have V: "\<And>s v r. parse_value f s = Inr (v, r) \<Longrightarrow> length r \<le> length s"
    and E: "\<And>s vs r. parse_elems f s = Inr (vs, r) \<Longrightarrow> length r \<le> length s"
    and M: "\<And>s kvs r. parse_members f s = Inr (kvs, r) \<Longrightarrow> length r \<le> length s"
    by blast+
  have v: "length r \<le> length s" if "parse_value (Suc f) s = Inr (v, r)" for s v r
  proof (cases "skip_ws s")
    case Nil
    with that show ?thesis by simp
  next
    case (Cons c cs)
    then have cs: "length cs < length s" by (rule skip_ws_Cons_length)
    have tl: "length (tl (skip_ws cs)) \<le> length cs" by (rule tl_skip_ws_length)
    from that Cons cs tl show ?thesis
      by (auto split: if_splits option.splits prod.splits
          dest!: bind_err_Inr
          dest: E M parse_chars_length strip_prefix_Cons_length parse_number_Cons_length)
  qed
  have e: "length r \<le> length s" if "parse_elems (Suc f) s = Inr (vs, r)" for s vs r
  proof -
    from that obtain v r0 where a: "parse_value f s = Inr (v, r0)"
      and b: "(case skip_ws r0 of [] \<Rightarrow> Inl SyntaxError
               | c # r1 \<Rightarrow> if c = CHR '','' then bind_err (parse_elems f r1) (\<lambda>(vs, r2). Inr (v # vs, r2))
                          else if c = CHR '']'' then Inr ([v], r1) else Inl SyntaxError) = Inr (vs, r)"
      by (auto dest!: bind_err_Inr)
    from a have r0: "length r0 \<le> length s" by (rule V)
    from b r0 show ?thesis
      by (auto split: list.splits if_splits dest!: bind_err_Inr skip_ws_Cons_length dest: E)
  qed
  have m: "length r \<le> length s" if "parse_members (Suc f) s = Inr (kvs, r)" for s kvs r
  proof (cases "skip_ws s")
    case Nil
    with that show ?thesis by simp
  next
    case (Cons q cs)
    then have cs: "length cs < length s" by (rule skip_ws_Cons_length)
    from that Cons cs show ?thesis
      by (auto split: list.splits if_splits
          dest!: bind_err_Inr skip_ws_Cons_length parse_chars_length V M)
  qed
  from v e m show ?case by blast
qed

lemmas parse_length_value = parse_length [THEN conjunct1, rule_format]

lemma parse_fuel_step:
  "(\<forall>s. 2 * length s + 1 \<le> f \<longrightarrow> parse_value (Suc f) s = parse_value f s)
   \<and> (\<forall>s. 2 * length s + 2 \<le> f \<longrightarrow> parse_elems (Suc f) s = parse_elems f s)
   \<and> (\<forall>s. 2 * length s + 2 \<le> f \<longrightarrow> parse_members (Suc f) s = parse_members f s)"
proof (induction f)
  case 0
  show ?case by simp
next
  case (Suc f)
  then have V: "\<And>s. 2 * length s + 1 \<le> f \<Longrightarrow> parse_value (Suc f) s = parse_value f s"
    and E: "\<And>s. 2 * length s + 2 \<le> f \<Longrightarrow> parse_elems (Suc f) s = parse_elems f s"
    and M: "\<And>s. 2 * length s + 2 \<le> f \<Longrightarrow> parse_members (Suc f) s = parse_members f s"
    by blast+
  have v: "parse_value (Suc (Suc f)) s = parse_value (Suc f) s" if b: "2 * length s + 1 \<le> Suc f" for s
  proof (cases "skip_ws s")
    case Nil
    then show ?thesis by simp
  next
    case (Cons c cs)
    then have "length cs < length s" by (rule skip_ws_Cons_length)
    with b have "2 * length cs + 2 \<le> f" by simp
    then have "parse_elems (Suc f) cs = parse_elems f cs" "parse_members (Suc f) cs = parse_members f cs"
      by (rule E, rule M)
    then show ?thesis
      unfolding parse_value.simps(2) [of "Suc f" s] parse_value.simps(2) [of f s]
      by (simp add: Cons del: parse_value.simps parse_elems.simps parse_members.simps)
  qed
  have e: "parse_elems (Suc (Suc f)) s = parse_elems (Suc f) s" if b: "2 * length s + 2 \<le> Suc f" for s
  proof -
    from b have pv: "parse_value (Suc f) s = parse_value f s" by (intro V) simp
    show ?thesis
    proof (cases "parse_value f s")
      case (Inl err)
      then show ?thesis
        unfolding parse_elems.simps(2) [of "Suc f" s] parse_elems.simps(2) [of f s]
        by (simp add: pv del: parse_value.simps parse_elems.simps parse_members.simps)
    next
      case (Inr p)
      obtain x r where p: "p = (x, r)" by (cases p)
      with Inr have r: "length r \<le> length s" using parse_length_value by blast
      show ?thesis
      proof (cases "skip_ws r")
        case Nil
        then show ?thesis
          unfolding parse_elems.simps(2) [of "Suc f" s] parse_elems.simps(2) [of f s]
          by (simp add: pv Inr p del: parse_value.simps parse_elems.simps parse_members.simps)
      next
        case (Cons c r1)
        then have "length r1 < length r" by (rule skip_ws_Cons_length)
        with r b have "2 * length r1 + 2 \<le> f" by simp
        then have "parse_elems (Suc f) r1 = parse_elems f r1" by (rule E)
        then show ?thesis
          unfolding parse_elems.simps(2) [of "Suc f" s] parse_elems.simps(2) [of f s]
          by (simp add: pv Inr p Cons del: parse_value.simps parse_elems.simps parse_members.simps)
      qed
    qed
  qed
  have m: "parse_members (Suc (Suc f)) s = parse_members (Suc f) s" if b: "2 * length s + 2 \<le> Suc f" for s
  proof (cases "skip_ws s")
    case Nil
    then show ?thesis by simp
  next
    case s: (Cons q cs)
    then have cs: "length cs < length s" by (rule skip_ws_Cons_length)
    note unfold = parse_members.simps(2) [of "Suc f" s] parse_members.simps(2) [of f s]
    show ?thesis
    proof (cases "parse_chars cs")
      case (Inl err)
      then show ?thesis unfolding unfold
        by (simp add: s del: parse_value.simps parse_elems.simps parse_members.simps parse_chars.simps)
    next
      case (Inr p)
      obtain k r where p: "p = (k, r)" by (cases p)
      with Inr have r: "length r < length cs" using parse_chars_length by blast
      show ?thesis
      proof (cases "skip_ws r")
        case Nil
        then show ?thesis unfolding unfold
          by (simp add: s Inr p
              del: parse_value.simps parse_elems.simps parse_members.simps parse_chars.simps)
      next
        case r1: (Cons c r1)
        then have lr1: "length r1 < length r" by (rule skip_ws_Cons_length)
        with r cs b have "2 * length r1 + 1 \<le> f" by simp
        then have pv: "parse_value (Suc f) r1 = parse_value f r1" by (rule V)
        show ?thesis
        proof (cases "parse_value f r1")
          case (Inl err)
          then show ?thesis unfolding unfold
            by (simp add: s Inr p r1 pv
                del: parse_value.simps parse_elems.simps parse_members.simps parse_chars.simps)
        next
          case v: (Inr pr)
          obtain x r2 where pr: "pr = (x, r2)" by (cases pr)
          with v have r2: "length r2 \<le> length r1" using parse_length_value by blast
          show ?thesis
          proof (cases "skip_ws r2")
            case Nil
            then show ?thesis unfolding unfold
              by (simp add: s Inr p r1 pv v pr
                  del: parse_value.simps parse_elems.simps parse_members.simps parse_chars.simps)
          next
            case r3: (Cons d r3)
            then have "length r3 < length r2" by (rule skip_ws_Cons_length)
            with r2 lr1 r cs b have "2 * length r3 + 2 \<le> f" by simp
            then have "parse_members (Suc f) r3 = parse_members f r3" by (rule M)
            then show ?thesis unfolding unfold
              by (simp add: s Inr p r1 pv v pr r3
                  del: parse_value.simps parse_elems.simps parse_members.simps parse_chars.simps)
          qed
        qed
      qed
    qed
  qed
  from v e m show ?case by blast
qed

lemma parse_value_fuel:
  "2 * length s + 1 \<le> f \<Longrightarrow> parse_value (f + n) s = parse_value f s"
proof (induction n)
  case 0
  show ?case by simp
next
  case (Suc n)
  then have "2 * length s + 1 \<le> f + n" by simp
  then have "parse_value (Suc (f + n)) s = parse_value (f + n) s"
    using parse_fuel_step [of "f + n"] by blast
  with Suc show ?case by simp
qed

lemma JSON_parse_fuel:
  "JSON_parse s =
     bind_err (parse_value (2 * length s + 2 + n) s) (\<lambda>(v, r).
       if skip_ws r = [] then Inr v else Inl SyntaxError)"
  using parse_value_fuel [of s "2 * length s + 2" n] by (simp add: JSON_parse_def)

subsection \<open>The Resource Client\<close>

text \<open>
  Claim C8. For every \<open>codelistUid\<close> and \<open>termUid\<close>, \<^verbatim>\<open>addTermToCodelist\<close> makes one
  request to the HTTP client, a POST to \<^verbatim>\<open>ct/codelists/<codelistUid>/terms\<close>, and returns
  its result; the body of the request has \<^verbatim>\<open>term_uid\<close> equal to \<open>termUid\<close> and \<^verbatim>\<open>order\<close>
  equal to the sentinel 999999.
\<close>

theorem addTermToCodelist_order_sentinel:
  "\<exists>body. (\<forall>repository :: request \<Rightarrow> 'r.
              addTermToCodelist repository codelistUid termUid =
                repository (Request POST (''ct/codelists/'' @ codelistUid @ ''/terms'') [body]))
     \<and> getprop body ''term_uid'' = Inr termUid
     \<and> getprop body ''order'' = Inr (JNum 999999)"
  by (rule exI [of _ "JObj [(''term_uid'', termUid), (''order'', JNum 999999)]"])
     (simp add: addTermToCodelist_def resource_def own_prop_def)

theorem addTermToCodelist_order_sentinel_witness:
  "\<exists>body. addTermToCodelist (\<lambda>r. r) ''CTCodelist_000001'' (JStr ''C49488'') =
              Request POST ''ct/codelists/CTCodelist_000001/terms'' [body]
     \<and> getprop body ''term_uid'' = Inr (JStr ''C49488'')
     \<and> getprop body ''order'' = Inr (JNum 999999)"
  using addTermToCodelist_order_sentinel
    [of "''CTCodelist_000001''" "JStr ''C49488''", where ?'r = request]
  by auto

text \<open>
  Claim C2, as stated, fails: \<^verbatim>\<open>getCodelists\<close> called with \<^verbatim>\<open>{page_size: -1}\<close> hands
  \<^verbatim>\<open>{page_size: 1000}\<close> to the HTTP client, not the caller's options;
  \<^verbatim>\<open>addTermToCodelist\<close> adds a value of its own to the body; and
  \<^verbatim>\<open>getCodelistTermsAttributes('CL_NEW', {codelist_uid: 'CL_OLD'})\<close> hands
  \<^verbatim>\<open>{codelist_uid: 'CL_NEW'}\<close>, not the caller's options. So \<^verbatim>\<open>getSponsorPackages\<close> is not
  the only operation that is more than a pass-through.
\<close>

theorem ct_pass_through_counterexample:
  "req_args (request_of (GetCodelists (JObj [(''page_size'', JNum (- 1))])))
     = [config (JObj [(''page_size'', JNum 1000)])]
   \<and> req_args (request_of (GetCodelists (JObj [(''page_size'', JNum (- 1))])))
     \<noteq> passthrough_args (GetCodelists (JObj [(''page_size'', JNum (- 1))]))
   \<and> req_args (request_of (AddTermToCodelist ''CTCodelist_000001'' (JStr ''C49488'')))
     \<noteq> passthrough_args (AddTermToCodelist ''CTCodelist_000001'' (JStr ''C49488''))
   \<and> req_args (request_of (GetCodelistTermsAttributes (JStr ''CL_NEW'')
                                (JObj [(''codelist_uid'', JStr ''CL_OLD'')])))
     = [config (JObj [(''codelist_uid'', JStr ''CL_NEW'')])]
   \<and> req_args (request_of (GetCodelistTermsAttributes (JStr ''CL_NEW'')
                                (JObj [(''codelist_uid'', JStr ''CL_OLD'')])))
     \<noteq> passthrough_args (GetCodelistTermsAttributes (JStr ''CL_NEW'')
                              (JObj [(''codelist_uid'', JStr ''CL_OLD'')]))"
  by (simp add: request_of_def getCodelists_def addTermToCodelist_def
      getCodelistTermsAttributes_def config_def)

text \<open>
  Claim C2, amended. Every operation makes exactly one request to the HTTP client and
  returns its result unmodified. Every operation other than \<^verbatim>\<open>getSponsorPackages\<close>,
  \<^verbatim>\<open>addTermToCodelist\<close>, \<^verbatim>\<open>getCodelists\<close> and \<^verbatim>\<open>getCodelistTermsAttributes\<close> hands the
  caller's parameters or body to the HTTP client unmodified. \<^verbatim>\<open>getSponsorPackages\<close> supplies
  the fixed catalogue name and sponsor-only flag. \<^verbatim>\<open>addTermToCodelist\<close> adds the fixed
  \<^verbatim>\<open>order\<close> 999999 to the caller's \<^verbatim>\<open>term_uid\<close>. \<^verbatim>\<open>getCodelists\<close> hands over a copy of the
  own properties of the caller's options in which a \<^verbatim>\<open>page_size\<close> of -1 is replaced by 1000;
  this is the caller's options when they are an object whose \<^verbatim>\<open>page_size\<close> is not -1.
  \<^verbatim>\<open>getCodelistTermsAttributes\<close> hands over a copy of the own properties of the caller's
  options in which \<^verbatim>\<open>codelist_uid\<close> is set to the caller's \<^verbatim>\<open>codelistUid\<close>, replacing a
  \<^verbatim>\<open>codelist_uid\<close> the options had; when the options are an object without that property,
  this is the caller's options followed by \<^verbatim>\<open>codelist_uid\<close>.
\<close>

theorem ct_pass_through_amended:
  "(\<forall>rp :: request \<Rightarrow> 'r. invoke rp c = rp (request_of c))
   \<and> (c \<noteq> GetSponsorPackages \<and> (\<forall>u t. c \<noteq> AddTermToCodelist u t)
        \<and> (\<forall>opts. c \<noteq> GetCodelists opts)
        \<and> (\<forall>cu opts. c \<noteq> GetCodelistTermsAttributes cu opts)
        \<longrightarrow> req_args (request_of c) = passthrough_args c)
   \<and> req_args (request_of GetSponsorPackages)
        = [config (JObj [(''catalogue'', JStr ''SDTM CT''), (''sponsor_only'', JBool True)])]
   \<and> req_args (request_of (AddTermToCodelist u t))
        = [JObj [(''term_uid'', t), (''order'', JNum 999999)]]
   \<and> req_args (request_of (GetCodelists opts))
        = [config (JObj (if own_prop (spread opts) ''page_size'' = JNum (- 1)
                         then AList.update ''page_size'' (JNum 1000) (spread opts)
                         else spread opts))]
   \<and> (own_prop kvs ''page_size'' \<noteq> JNum (- 1)
        \<longrightarrow> req_args (request_of (GetCodelists (JObj kvs)))
            = passthrough_args (GetCodelists (JObj kvs)))
   \<and> req_args (request_of (GetCodelistTermsAttributes codelistUid opts))
        = [config (JObj (AList.update ''codelist_uid'' codelistUid (spread opts)))]
   \<and> (''codelist_uid'' \<notin> fst ` set kvs
        \<longrightarrow> req_args (request_of (GetCodelistTermsAttributes codelistUid (JObj kvs)))
            = [config (JObj (kvs @ [(''codelist_uid'', codelistUid)]))])"
proof -
  have one: "\<forall>rp :: request \<Rightarrow> 'r. invoke rp c = rp (request_of c)"
    by (simp add: invoke_request_of)
  have pass: "req_args (request_of c) = passthrough_args c"
    if "c \<noteq> GetSponsorPackages" "\<forall>u t. c \<noteq> AddTermToCodelist u t"
      "\<forall>opts. c \<noteq> GetCodelists opts" "\<forall>cu opts. c \<noteq> GetCodelistTermsAttributes cu opts"
    using that unfolding request_of_def by (cases c) (simp_all add: ct_defs Let_def)
  have sponsor: "req_args (request_of GetSponsorPackages)
        = [config (JObj [(''catalogue'', JStr ''SDTM CT''), (''sponsor_only'', JBool True)])]"
    by (simp add: request_of_def getSponsorPackages_def)
  have add: "req_args (request_of (AddTermToCodelist u t))
        = [JObj [(''term_uid'', t), (''order'', JNum 999999)]]"
    by (simp add: request_of_def addTermToCodelist_def)
  have lists: "req_args (request_of (GetCodelists opts))
        = [config (JObj (if own_prop (spread opts) ''page_size'' = JNum (- 1)
                         then AList.update ''page_size'' (JNum 1000) (spread opts)
                         else spread opts))]"
    by (rule getCodelists_request)
  have plain: "req_args (request_of (GetCodelists (JObj kvs)))
        = passthrough_args (GetCodelists (JObj kvs))"
    if "own_prop kvs ''page_size'' \<noteq> JNum (- 1)"
    using that by (simp add: getCodelists_request)
  have attrs: "req_args (request_of (GetCodelistTermsAttributes codelistUid opts))
        = [config (JObj (AList.update ''codelist_uid'' codelistUid (spread opts)))]"
    by (rule getCodelistTermsAttributes_request)
  have fresh: "req_args (request_of (GetCodelistTermsAttributes codelistUid (JObj kvs)))
        = [config (JObj (kvs @ [(''codelist_uid'', codelistUid)]))]"
    if "''codelist_uid'' \<notin> fst ` set kvs"
    using that by (simp add: getCodelistTermsAttributes_request update_fresh)
  from one pass sponsor add lists plain attrs fresh show ?thesis by blast
qed

theorem ct_pass_through_amended_witness:
  "req_args (request_of (GetPackages (JObj [(''page_size'', JNum 10)])))
     = [config (JObj [(''page_size'', JNum 10)])]
   \<and> req_args (request_of (GetCodelists (JObj [(''page_size'', JNum 10)])))
     = [config (JObj [(''page_size'', JNum 10)])]
   \<and> req_args (request_of (GetCodelistTermsAttributes (JStr ''CTCodelist_000001'')
                                (JObj [(''page_size'', JNum 10)])))
     = [config (JObj [(''page_size'', JNum 10), (''codelist_uid'', JStr ''CTCodelist_000001'')])]"
  using ct_pass_through_amended [where c = "GetPackages (JObj [(''page_size'', JNum 10)])"
      and u = "''u''" and t = JNull and opts = JNull and kvs = "[(''page_size'', JNum 10)]"
      and codelistUid = "JStr ''CTCodelist_000001''" and ?'r = request]
  by (simp add: own_prop_def)

subsection \<open>The getters of the store\<close>

lemma sort_by_order_numeric:
  assumes "list_all (\<lambda>x. order_of x \<noteq> None) xs"
  shows "\<exists>ys. sort_by_order xs = Inr ys \<and> sorted (map order_key ys) \<and> mset ys = mset xs"
proof -
  have "\<forall>x\<in>set xs. x \<noteq> JUndefined"
    using assms by (auto simp: list_all_iff)
  then have vs: "filter (\<lambda>x. x \<noteq> JUndefined) xs = xs"
    and us: "filter (\<lambda>x. x = JUndefined) xs = []"
    by (auto simp: filter_empty_conv)
  show ?thesis
  proof (cases "length xs < 2")
    case True
    then have "sorted (map order_key xs)"
      by (cases xs) (auto simp: less_Suc_eq_0_disj numeral_2_eq_2)
    with True show ?thesis by (simp add: sort_by_order_def vs us)
  next
    case False
    then show ?thesis using assms by (simp add: sort_by_order_def vs us)
  qed
qed

lemma sort_by_order_example:
  "sort_by_order [level 3, level 1, level 2] = Inr [level 1, level 2, level 3]"
  by (simp add: sort_by_order_def level_def order_key_def)

text \<open>
  Claim C4. When every element of \<^verbatim>\<open>objectiveLevels\<close> is an object with a number as
  \<^verbatim>\<open>order\<close>, \<^verbatim>\<open>sortedObjectiveLevels\<close> returns an array of the same elements in
  non-decreasing \<^verbatim>\<open>order\<close>; for \<^verbatim>\<open>[{order:3},{order:1},{order:2}]\<close> it returns
  \<^verbatim>\<open>[{order:1},{order:2},{order:3}]\<close>. The same holds of \<^verbatim>\<open>sortedEndpointLevels\<close> over
  \<^verbatim>\<open>endpointLevels\<close>.
\<close>

theorem sorted_levels_nondecreasing:
  assumes "list_all (\<lambda>x. order_of x \<noteq> None) xs"
  shows "(objectiveLevels s = JArr xs \<longrightarrow>
            (\<exists>ys. fst (sortedObjectiveLevels s) = Inr (JArr ys)
                 \<and> sorted (map order_key ys) \<and> mset ys = mset xs))
       \<and> (endpointLevels s = JArr xs \<longrightarrow>
            (\<exists>ys. fst (sortedEndpointLevels s) = Inr (JArr ys)
                 \<and> sorted (map order_key ys) \<and> mset ys = mset xs))
       \<and> fst (sortedObjectiveLevels (s\<lparr>objectiveLevels := JArr [level 3, level 1, level 2]\<rparr>))
            = Inr (JArr [level 1, level 2, level 3])
       \<and> fst (sortedEndpointLevels (s\<lparr>endpointLevels := JArr [level 3, level 1, level 2]\<rparr>))
            = Inr (JArr [level 1, level 2, level 3])"
  using sort_by_order_numeric [OF assms]
  by (auto simp: sortedObjectiveLevels_def sortedEndpointLevels_def sort_by_order_example)

theorem sorted_levels_nondecreasing_witness:
  "list_all (\<lambda>x. order_of x \<noteq> None) [level 5, level 4, level 4]
   \<and> (\<exists>ys. fst (sortedObjectiveLevels
               (initial_state\<lparr>objectiveLevels := JArr [level 5, level 4, level 4]\<rparr>))
             = Inr (JArr ys)
          \<and> sorted (map order_key ys) \<and> mset ys = mset [level 5, level 4, level 4])"
  using sorted_levels_nondecreasing [of "[level 5, level 4, level 4]"
      "initial_state\<lparr>objectiveLevels := JArr [level 5, level 4, level 4]\<rparr>"]
  by (simp add: level_def)

lemma sorted_levels_frame:
  "snd (sortedObjectiveLevels s)
     = s\<lparr>objectiveLevels := objectiveLevels (snd (sortedObjectiveLevels s))\<rparr>"
  "snd (sortedEndpointLevels s)
     = s\<lparr>endpointLevels := endpointLevels (snd (sortedEndpointLevels s))\<rparr>"
  by (simp_all add: sortedObjectiveLevels_def sortedEndpointLevels_def
      split: jsval.splits sum.splits)

text \<open>
  Claim C3 does not hold of the code: \<^verbatim>\<open>Array.prototype.sort\<close> sorts the array it is called
  on, so reading \<^verbatim>\<open>sortedObjectiveLevels\<close> reorders \<^verbatim>\<open>objectiveLevels\<close> in the store (and
  \<^verbatim>\<open>sortedEndpointLevels\<close> reorders \<^verbatim>\<open>endpointLevels\<close>). With \<^verbatim>\<open>objectiveLevels\<close> equal to
  \<^verbatim>\<open>[{order:3},{order:1},{order:2}]\<close>, the store holds \<^verbatim>\<open>[{order:1},{order:2},{order:3}]\<close>
  after the access.
\<close>

theorem sorted_levels_reorder_store:
  "snd (sortedObjectiveLevels (initial_state\<lparr>objectiveLevels := JArr [level 3, level 1, level 2]\<rparr>))
     = initial_state\<lparr>objectiveLevels := JArr [level 1, level 2, level 3]\<rparr>
   \<and> objectiveLevels (snd (sortedObjectiveLevels
        (initial_state\<lparr>objectiveLevels := JArr [level 3, level 1, level 2]\<rparr>)))
     \<noteq> JArr [level 3, level 1, level 2]
   \<and> snd (sortedEndpointLevels (initial_state\<lparr>endpointLevels := JArr [level 3, level 1, level 2]\<rparr>))
     = initial_state\<lparr>endpointLevels := JArr [level 1, level 2, level 3]\<rparr>
   \<and> endpointLevels (snd (sortedEndpointLevels
        (initial_state\<lparr>endpointLevels := JArr [level 3, level 1, level 2]\<rparr>)))
     \<noteq> JArr [level 3, level 1, level 2]"
  by (simp add: sortedObjectiveLevels_def sortedEndpointLevels_def sort_by_order_def level_def
      order_key_def)

text \<open>
  Claim C5. When \<^verbatim>\<open>identification_metadata\<close> of the selected study can be read and is
  neither \<^verbatim>\<open>undefined\<close> nor \<^verbatim>\<open>null\<close>, \<^verbatim>\<open>studyId\<close> is its \<^verbatim>\<open>study_id\<close> if its
  \<^verbatim>\<open>study_number\<close> is neither \<^verbatim>\<open>undefined\<close> nor \<^verbatim>\<open>null\<close>, and its \<^verbatim>\<open>study_acronym\<close>
  otherwise.
\<close>

theorem studyId_study_number_rule:
  assumes "identification_metadata s = Inr im"
    and "getprop im ''study_number'' = Inr studyNumber"
  shows "studyId s =
           (if studyNumber \<noteq> JUndefined \<and> studyNumber \<noteq> JNull
            then getprop im ''study_id'' else getprop im ''study_acronym'')"
  using assms by (simp add: studyId_def)

theorem studyId_study_number_rule_witness:
  "identification_metadata (initial_state\<lparr>selectedStudy := fixture_study (JStr ''0001'')\<rparr>)
     = Inr (fixture_identification (JStr ''0001''))
   \<and> getprop (fixture_identification (JStr ''0001'')) ''study_number'' = Inr (JStr ''0001'')
   \<and> studyId (initial_state\<lparr>selectedStudy := fixture_study (JStr ''0001'')\<rparr>)
     = Inr (JStr ''CDISC DEV-0001'')
   \<and> identification_metadata (initial_state\<lparr>selectedStudy := fixture_study JNull\<rparr>)
     = Inr (fixture_identification JNull)
   \<and> getprop (fixture_identification JNull) ''study_number'' = Inr JNull
   \<and> studyId (initial_state\<lparr>selectedStudy := fixture_study JNull\<rparr>) = Inr (JStr ''DEV'')"
proof -
  let ?s1 = "initial_state\<lparr>selectedStudy := fixture_study (JStr ''0001'')\<rparr>"
  let ?s2 = "initial_state\<lparr>selectedStudy := fixture_study JNull\<rparr>"
  have a1: "identification_metadata ?s1 = Inr (fixture_identification (JStr ''0001''))"
    by (simp add: identification_metadata_def fixture_study_def own_prop_def)
  have b1: "getprop (fixture_identification (JStr ''0001'')) ''study_number'' = Inr (JStr ''0001'')"
    by (simp add: fixture_identification_def own_prop_def)
  have a2: "identification_metadata ?s2 = Inr (fixture_identification JNull)"
    by (simp add: identification_metadata_def fixture_study_def own_prop_def)
  have b2: "getprop (fixture_identification JNull) ''study_number'' = Inr JNull"
    by (simp add: fixture_identification_def own_prop_def)
  have c1: "studyId ?s1 = Inr (JStr ''CDISC DEV-0001'')"
    using studyId_study_number_rule [OF a1 b1]
    by (simp add: fixture_identification_def own_prop_def)
  have c2: "studyId ?s2 = Inr (JStr ''DEV'')"
    using studyId_study_number_rule [OF a2 b2]
    by (simp add: fixture_identification_def own_prop_def)
  from a1 b1 c1 a2 b2 c2 show ?thesis by simp
qed

text \<open>
  Claim C9. \<^verbatim>\<open>studyId\<close> needs a selected study: in every state whose \<^verbatim>\<open>selectedStudy\<close> is
  \<^verbatim>\<open>null\<close>, as in the initial state and after \<^verbatim>\<open>unselectStudy()\<close>, evaluating it throws a
  \<^verbatim>\<open>TypeError\<close> and returns no value.
\<close>

theorem studyId_null_selection:
  "(selectedStudy s = JNull \<longrightarrow> studyId s = Inl TypeError)
   \<and> studyId (state (unselectStudy w)) = Inl TypeError
   \<and> studyId initial_state = Inl TypeError"
  by (simp add: studyId_def identification_metadata_def unselectStudy_def initial_state_def)

theorem studyId_null_selection_witness:
  "selectedStudy (state (unselectStudy initial_world)) = JNull
   \<and> studyId (state (unselectStudy initial_world)) = Inl TypeError"
  using studyId_null_selection [of "state (unselectStudy initial_world)" initial_world]
  by (simp add: unselectStudy_def)

subsection \<open>The fetch actions of the store\<close>

lemma fetch_items_result:
  "fetch_items api c upd w =
     (Value JUndefined,
      (case api c of
         Pending \<Rightarrow> w\<lparr>calls := calls w @ [c]\<rparr>
       | Rejected e \<Rightarrow> w\<lparr>calls := calls w @ [c], unhandled := unhandled w @ [e]\<rparr>
       | Fulfilled resp \<Rightarrow>
           (case items_of resp of
              Inl e \<Rightarrow> w\<lparr>calls := calls w @ [c], unhandled := unhandled w @ [e]\<rparr>
            | Inr items \<Rightarrow> w\<lparr>calls := calls w @ [c], state := upd (\<lambda>_. items) (state w)\<rparr>)))"
  by (simp add: fetch_items_def client_call_def then_p_def assign_items_def
      split: settled.splits sum.splits)

lemma run_fetch_fetch_items:
  "run_fetch a api w = fetch_items api (call_of a)
     (\<lambda>f s. set_field a (f (field_of a s)) s) w"
  by (cases a)
     (simp_all add: fetchUnits_def fetchAllUnits_def fetchStudyTypes_def fetchTrialIntentTypes_def
        fetchTrialTypes_def fetchTrialPhases_def fetchInterventionTypes_def
        fetchSexOfParticipants_def fetchTrialBlindingSchemas_def fetchControlTypes_def
        fetchInterventionModels_def fetchNullValues_def fetchObjectiveLevels_def
        fetchEndpointLevels_def fetchEndpointSubLevels_def fetch_items_result)

lemma field_of_set_field: "field_of a (set_field a v s) = v"
  by (cases a) simp_all

text \<open>
  Claim C1, as stated, fails in its last part: a fetch action does not return the promise
  it creates. With an HTTP layer that rejects every call, \<^verbatim>\<open>fetchUnits()\<close> returns
  \<^verbatim>\<open>undefined\<close>, so a caller that awaits it continues normally, and the rejection is left
  without a handler.
\<close>

theorem fetch_actions_counterexample:
  "failing_api (call_of FetchUnits) = Rejected network_error
   \<and> await (fst (run_fetch FetchUnits failing_api initial_world)) = Fulfilled JUndefined
   \<and> await (fst (run_fetch FetchUnits failing_api initial_world)) \<noteq> Rejected network_error
   \<and> unhandled (snd (run_fetch FetchUnits failing_api initial_world)) = [network_error]"
  by (simp add: fetchUnits_def fetch_items_result failing_api_def initial_world_def
      network_error_def)

text \<open>
  Claim C1, amended. Every single-call fetch action (all of the family but
  \<^verbatim>\<open>fetchSnomedTerms\<close>) makes exactly one Resource Client call and touches neither the local
  storage nor the page. When the call is fulfilled with a response whose \<^verbatim>\<open>data.items\<close> can
  be read, the action's field is replaced by exactly that value and no other field
  changes. When the call is rejected, the store is unchanged, nothing is retried and the
  rejection is not caught; the action itself returns \<^verbatim>\<open>undefined\<close>, so the failure is
  not delivered to a caller that awaits the action: it stays an unhandled rejection.
\<close>

theorem fetch_actions_amended:
  "fst (run_fetch a api w) = Value JUndefined
   \<and> calls (snd (run_fetch a api w)) = calls w @ [call_of a]
   \<and> localStorage (snd (run_fetch a api w)) = localStorage w
   \<and> reloads (snd (run_fetch a api w)) = reloads w
   \<and> (api (call_of a) = Fulfilled resp \<and> items_of resp = Inr items \<longrightarrow>
        state (snd (run_fetch a api w)) = set_field a items (state w)
        \<and> field_of a (state (snd (run_fetch a api w))) = items
        \<and> unhandled (snd (run_fetch a api w)) = unhandled w)
   \<and> (api (call_of a) = Rejected e \<longrightarrow>
        state (snd (run_fetch a api w)) = state w
        \<and> unhandled (snd (run_fetch a api w)) = unhandled w @ [e])"
  unfolding run_fetch_fetch_items fetch_items_result
  by (auto simp: field_of_set_field split: settled.splits sum.splits)

theorem fetch_actions_amended_witness:
  "serving_api (JArr [JStr ''days'']) (call_of FetchUnits)
     = Fulfilled (envelope (JArr [JStr ''days'']))
   \<and> items_of (envelope (JArr [JStr ''days''])) = Inr (JArr [JStr ''days''])
   \<and> units (state (snd (fetchUnits (serving_api (JArr [JStr ''days''])) initial_world)))
       = JArr [JStr ''days'']
   \<and> failing_api (call_of FetchUnits) = Rejected network_error
   \<and> state (snd (fetchUnits failing_api initial_world)) = state initial_world
   \<and> fst (fetchUnits failing_api initial_world) = Value JUndefined"
  using fetch_actions_amended [of FetchUnits "serving_api (JArr [JStr ''days''])" initial_world
          "envelope (JArr [JStr ''days''])" "JArr [JStr ''days'']" network_error]
        fetch_actions_amended [of FetchUnits failing_api initial_world
          "envelope (JArr [JStr ''days''])" "JArr [JStr ''days'']" network_error]
  by (simp add: serving_api_def failing_api_def items_of_def envelope_def own_prop_def)

lemma sort_by_name_text:
  "stringified (JObj [(''name'', JBool True)]) = JStr (CHR ''{'' # quote ''name'' @ '':true}'')"
  by (simp add: stringified_def)

lemma fetchSnomedTerms_result:
  "fetchSnomedTerms api w =
     (Value JUndefined,
      (let c1 = Call ''dictionaries.getCodelists'' [JStr ''SNOMED''];
           w1 = w\<lparr>calls := calls w @ [c1]\<rparr>
       in case api c1 of
            Pending \<Rightarrow> w1
          | Rejected e \<Rightarrow> w1\<lparr>unhandled := unhandled w @ [e]\<rparr>
          | Fulfilled resp \<Rightarrow>
              (case snomed_params resp of
                 Inl e \<Rightarrow> w1\<lparr>unhandled := unhandled w @ [e]\<rparr>
               | Inr params \<Rightarrow>
                   snd (fetch_items api (Call ''dictionaries.getTerms'' [params])
                          snomedTerms_update w1))))"
  by (simp add: fetchSnomedTerms_def fetch_items_def client_call_def then_p_def Let_def
      split: settled.splits sum.splits prod.splits)

text \<open>
  Claim C10. \<^verbatim>\<open>fetchSnomedTerms\<close> reads \<^verbatim>\<open>items[0]\<close> of the response to the lookup of
  \<^verbatim>\<open>'SNOMED'\<close> without a check. When \<^verbatim>\<open>items\<close> is the empty array, the handler throws a
  \<^verbatim>\<open>TypeError\<close> before the second request: the lookup is the only call made and the store,
  \<^verbatim>\<open>snomedTerms\<close> included, is unchanged. When \<^verbatim>\<open>items\<close> has a first element, the second
  request carries the \<^verbatim>\<open>codelist_uid\<close> of that element, whatever the other elements are.
\<close>

theorem fetchSnomedTerms_first_item:
  assumes "api (Call ''dictionaries.getCodelists'' [JStr ''SNOMED'']) = Fulfilled resp"
    and "items_of resp = Inr (JArr xs)"
  shows "(xs = [] \<longrightarrow>
            calls (snd (fetchSnomedTerms api w))
              = calls w @ [Call ''dictionaries.getCodelists'' [JStr ''SNOMED'']]
            \<and> state (snd (fetchSnomedTerms api w)) = state w
            \<and> unhandled (snd (fetchSnomedTerms api w)) = unhandled w @ [TypeError])
       \<and> (xs = x # rest \<and> getprop x ''codelist_uid'' = Inr uid \<longrightarrow>
            calls (snd (fetchSnomedTerms api w))
              = calls w @ [Call ''dictionaries.getCodelists'' [JStr ''SNOMED''],
                           Call ''dictionaries.getTerms''
                             [JObj [(''codelist_uid'', uid), (''page_size'', JNum 0),
                                    (''sort_by'', JStr (CHR ''{'' # quote ''name'' @ '':true}''))]]])"
  using assms
  by (auto simp: fetchSnomedTerms_result snomed_params_def fetch_items_result sort_by_name_text
      Let_def split: settled.splits sum.splits)

theorem fetchSnomedTerms_first_item_witness:
  "serving_api (JArr []) (Call ''dictionaries.getCodelists'' [JStr ''SNOMED''])
     = Fulfilled (envelope (JArr []))
   \<and> items_of (envelope (JArr [])) = Inr (JArr [])
   \<and> calls (snd (fetchSnomedTerms (serving_api (JArr [])) initial_world))
     = [Call ''dictionaries.getCodelists'' [JStr ''SNOMED'']]
   \<and> snomedTerms (state (snd (fetchSnomedTerms (serving_api (JArr [])) initial_world))) = JArr []
   \<and> unhandled (snd (fetchSnomedTerms (serving_api (JArr [])) initial_world)) = [TypeError]
   \<and> items_of (envelope two_codelists) = Inr two_codelists
   \<and> calls (snd (fetchSnomedTerms (serving_api two_codelists) initial_world))
     = [Call ''dictionaries.getCodelists'' [JStr ''SNOMED''],
        Call ''dictionaries.getTerms''
          [JObj [(''codelist_uid'', JStr ''DictionaryCodelist_000001''), (''page_size'', JNum 0),
                 (''sort_by'', JStr (CHR ''{'' # quote ''name'' @ '':true}''))]]]"
  using fetchSnomedTerms_first_item [of "serving_api (JArr [])" "envelope (JArr [])" "[]"
      initial_world JNull "[]" JNull]
    fetchSnomedTerms_first_item [of "serving_api two_codelists" "envelope two_codelists"
      "[JObj [(''codelist_uid'', JStr ''DictionaryCodelist_000001'')],
        JObj [(''codelist_uid'', JStr ''DictionaryCodelist_000002'')]]"
      initial_world "JObj [(''codelist_uid'', JStr ''DictionaryCodelist_000001'')]"
      "[JObj [(''codelist_uid'', JStr ''DictionaryCodelist_000002'')]]"
      "JStr ''DictionaryCodelist_000001''"]
  by (simp add: serving_api_def items_of_def envelope_def own_prop_def initial_world_def
      initial_state_def two_codelists_def)

subsection \<open>Selecting a study and restoring it\<close>

lemma bind_err_case: "bind_err m f = (case m of Inl e \<Rightarrow> Inl e | Inr x \<Rightarrow> f x)"
  by (cases m) simp_all

lemma dropped_then_assign_data:
  "localStorage (dropped (then_p p (assign_data upd) w)) = localStorage w"
  "calls (dropped (then_p p (assign_data upd) w)) = calls w"
  "reloads (dropped (then_p p (assign_data upd) w)) = reloads w"
  by (auto simp: then_p_def assign_data_def bind_err_case split: settled.splits sum.splits)

lemma dropped_then_assign_data_state:
  assumes "\<And>f s. selectedStudy (upd f s) = selectedStudy s"
  shows "selectedStudy (state (dropped (then_p p (assign_data upd) w))) = selectedStudy (state w)"
  using assms
  by (auto simp: then_p_def assign_data_def bind_err_case split: settled.splits sum.splits)

lemma version_number_uid:
  "version_number_of studyObj = Inr vn \<Longrightarrow> \<exists>uid. getprop studyObj ''uid'' = Inr uid"
  by (cases studyObj) (simp_all add: version_number_of_def)

lemma selectStudy_result:
  assumes "version_number_of studyObj = Inr vn" and "getprop studyObj ''uid'' = Inr uid"
  shows "fst (selectStudy api studyObj forceReload w) = Inr (Value JUndefined)"
    and "localStorage (snd (selectStudy api studyObj forceReload w))
           = (localStorage w)(''selectedStudy'' \<mapsto> stored_text studyObj)"
    and "selectedStudy (state (snd (selectStudy api studyObj forceReload w))) = studyObj"
    and "calls (snd (selectStudy api studyObj forceReload w))
           = calls w @ [Call ''study.getStudyPreferredTimeUnit'' [uid],
                        Call ''study.getSoAPreferredTimeUnit'' [uid],
                        Call ''study.getSoAPreferences'' [uid]]"
  using assms
  by (simp_all add: selectStudy_def Let_def client_call_def dropped_then_assign_data
      dropped_then_assign_data_state)

text \<open>
  Claim C7. For every study object \<open>S\<close> (a JSON value whose
  \<^verbatim>\<open>current_metadata.version_metadata\<close> can be read, so that \<^verbatim>\<open>selectStudy\<close> completes),
  after \<^verbatim>\<open>selectStudy(S)\<close> the local storage holds under \<^verbatim>\<open>'selectedStudy'\<close> a text that
  \<^verbatim>\<open>JSON.parse\<close> turns back into \<open>S\<close>, whatever the HTTP layer answers and whatever
  \<^verbatim>\<open>forceReload\<close> is.
\<close>

theorem selectStudy_persist_roundtrip:
  assumes "json_value studyObj" and "version_number_of studyObj = Inr vn"
  shows "\<exists>t. localStorage (snd (selectStudy api studyObj forceReload w)) ''selectedStudy'' = Some t
            \<and> JSON_parse t = Inr studyObj"
proof -
  from assms(2) obtain uid where uid: "getprop studyObj ''uid'' = Inr uid"
    using version_number_uid by blast
  from assms(1) obtain t where t: "JSON_stringify studyObj = Some t" "JSON_parse t = Inr studyObj"
    using JSON_roundtrip by blast
  then have "stored_text studyObj = t" by (simp add: stored_text_def)
  with t(2) show ?thesis by (simp add: selectStudy_result(2) [OF assms(2) uid])
qed

theorem selectStudy_persist_roundtrip_witness:
  "json_value (fixture_study (JStr ''0001''))
   \<and> version_number_of (fixture_study (JStr ''0001'')) = Inr (JNum 2)
   \<and> (\<exists>t. localStorage (snd (selectStudy failing_api (fixture_study (JStr ''0001'')) JUndefined
                 initial_world)) ''selectedStudy'' = Some t
          \<and> JSON_parse t = Inr (fixture_study (JStr ''0001'')))"
proof -
  have a: "json_value (fixture_study (JStr ''0001''))"
    by (simp add: fixture_study_def fixture_identification_def)
  have b: "version_number_of (fixture_study (JStr ''0001'')) = Inr (JNum 2)"
    by (simp add: version_number_of_def fixture_study_def own_prop_def)
  from selectStudy_persist_roundtrip [OF a b] a b show ?thesis by blast
qed

lemma unselectStudy_clears:
  "selectedStudy (state (unselectStudy w)) = JNull"
  "localStorage (unselectStudy w) ''selectedStudy'' = None"
  by (simp_all add: unselectStudy_def)

text \<open>
  Claim C6. If the local storage holds a persisted study (a non-empty text that parses to
  an object \<^verbatim>\<open>selectStudy\<close> accepts) and the revalidation call \<^verbatim>\<open>study.getStudy(uid, true)\<close>
  is rejected, for whatever reason, then \<^verbatim>\<open>initialize()\<close> completes normally and afterwards
  \<^verbatim>\<open>selectedStudy\<close> is \<^verbatim>\<open>null\<close> and the local storage has no \<^verbatim>\<open>'selectedStudy'\<close> entry.
\<close>

theorem initialize_rollback:
  assumes "localStorage w ''selectedStudy'' = Some txt" and "txt \<noteq> []"
    and "JSON_parse txt = Inr study"
    and "version_number_of study = Inr vn"
    and "getprop study ''uid'' = Inr uid"
    and "api (Call ''study.getStudy'' [uid, JBool True]) = Rejected e"
  shows "fst (initialize api w) = Promise (Fulfilled JUndefined)
       \<and> selectedStudy (state (snd (initialize api w))) = JNull
       \<and> localStorage (snd (initialize api w)) ''selectedStudy'' = None"
proof -
  obtain r w1 where sel: "selectStudy api study JUndefined w = (r, w1)"
    by (cases "selectStudy api study JUndefined w")
  with selectStudy_result(1) [OF assms(4,5), of api JUndefined w]
  have r: "r = Inr (Value JUndefined)" by simp
  have "initialize api w =
      (Promise (Fulfilled JUndefined), unselectStudy (w1\<lparr>calls := calls w1 @ [Call ''study.getStudy'' [uid, JBool True]]\<rparr>))"
    using assms by (simp add: initialize_def sel r client_call_def)
  then show ?thesis by (simp add: unselectStudy_clears)
qed

theorem initialize_rollback_witness:
  "localStorage persisted_world ''selectedStudy'' = Some (stored_text (fixture_study (JStr ''0001'')))
   \<and> stored_text (fixture_study (JStr ''0001'')) \<noteq> []
   \<and> JSON_parse (stored_text (fixture_study (JStr ''0001''))) = Inr (fixture_study (JStr ''0001''))
   \<and> version_number_of (fixture_study (JStr ''0001'')) = Inr (JNum 2)
   \<and> getprop (fixture_study (JStr ''0001'')) ''uid'' = Inr (JStr ''Study_000001'')
   \<and> failing_api (Call ''study.getStudy'' [JStr ''Study_000001'', JBool True])
       = Rejected network_error
   \<and> fst (initialize failing_api persisted_world) = Promise (Fulfilled JUndefined)
   \<and> selectedStudy (state (snd (initialize failing_api persisted_world))) = JNull
   \<and> localStorage (snd (initialize failing_api persisted_world)) ''selectedStudy'' = None"
proof -
  let ?S = "fixture_study (JStr ''0001'')"
  have js: "json_value ?S"
    by (simp add: fixture_study_def fixture_identification_def)
  then obtain t where t: "JSON_stringify ?S = Some t" "JSON_parse t = Inr ?S"
    using JSON_roundtrip by blast
  then have st: "stored_text ?S = t" by (simp add: stored_text_def)
  have a: "localStorage persisted_world ''selectedStudy'' = Some (stored_text ?S)"
    by (simp add: persisted_world_def)
  have b: "stored_text ?S \<noteq> []"
    using stringify_first [OF t(1)] st by auto
  have c: "JSON_parse (stored_text ?S) = Inr ?S"
    using t(2) st by simp
  have d: "version_number_of ?S = Inr (JNum 2)"
    by (simp add: version_number_of_def fixture_study_def own_prop_def)
  have e: "getprop ?S ''uid'' = Inr (JStr ''Study_000001'')"
    by (simp add: fixture_study_def own_prop_def)
  have f: "failing_api (Call ''study.getStudy'' [JStr ''Study_000001'', JBool True])
      = Rejected network_error"
    by (simp add: failing_api_def)
  from initialize_rollback [where api = failing_api and w = persisted_world, OF a b c d e f]
    a b c d e f
  show ?thesis by blast
qed

end
